theory Spec2Isabelle
  imports Complex_Main
begin

text \<open>
  A model of \<^verbatim>\<open>src/portfolio/optimizer.py\<close>, class \<open>FreePortfolioOptimizer\<close>:
  \<open>optimize_portfolio\<close>, which samples \<open>num_portfolios\<close> random weight vectors and
  returns the max-Sharpe and the min-volatility one, \<open>_calculate_diversification_ratio\<close>
  and \<open>calculate_portfolio_metrics\<close>. The definitions follow the source line by line;
  the statements about them come after all definitions.
\<close>

section \<open>Numbers\<close>

text \<open>
  The optimizer computes with numpy and pandas floats. A value is modelled as a real
  number or as NaN: rounding, overflow and the sign of zero are left out, the undefined
  results that the program can produce without raising are kept, because numpy does not
  raise on them and the program goes on computing with NaN:
  \<^item> \<open>0 / 0\<close> is NaN (a warning, no exception);
  \<^item> \<open>np.sqrt\<close> of a negative number is NaN;
  \<^item> every arithmetic operation with a NaN operand is NaN;
  \<^item> every ordering comparison with a NaN operand is False, and \<open>NaN != x\<close> is True;
  \<^item> the reductions of numpy arrays (\<open>np.sum\<close>, \<open>np.mean\<close>, \<open>np.dot\<close>, \<open>np.argmax\<close>)
    propagate NaN, the reductions of pandas objects (\<open>Series.sum\<close>, \<open>Series.min\<close>, and
    \<open>np.sum\<close> of a Series, which calls \<open>Series.sum\<close>) skip NaN.

  A nonzero number over zero is an infinity in numpy. No division of the program meets
  that case on finite operands: a division is either guarded by \<open>> 0\<close>, or divides a
  draw of \<open>[0, 1)\<close> by the sum of the draws, or divides zero. The model gives NaN there.
\<close>

datatype np_float = Num real | NaN

fun is_number :: "np_float \<Rightarrow> bool" where
  "is_number (Num x) = True"
| "is_number NaN = False"

fun np_add :: "np_float \<Rightarrow> np_float \<Rightarrow> np_float" where
  "np_add (Num x) (Num y) = Num (x + y)"
| "np_add _ _ = NaN"

fun np_sub :: "np_float \<Rightarrow> np_float \<Rightarrow> np_float" where
  "np_sub (Num x) (Num y) = Num (x - y)"
| "np_sub _ _ = NaN"

fun np_mul :: "np_float \<Rightarrow> np_float \<Rightarrow> np_float" where
  "np_mul (Num x) (Num y) = Num (x * y)"
| "np_mul _ _ = NaN"

fun np_div :: "np_float \<Rightarrow> np_float \<Rightarrow> np_float" where
  "np_div (Num x) (Num y) = (if y = 0 then NaN else Num (x / y))"
| "np_div _ _ = NaN"

fun np_sqrt :: "np_float \<Rightarrow> np_float" where
  "np_sqrt (Num x) = (if x < 0 then NaN else Num (sqrt x))"
| "np_sqrt NaN = NaN"

fun np_abs :: "np_float \<Rightarrow> np_float" where
  "np_abs (Num x) = Num \<bar>x\<bar>"
| "np_abs NaN = NaN"

text \<open>\<open>a > b\<close>, \<open>a <= b\<close> and \<open>a != b\<close> on floats.\<close>

fun np_gt :: "np_float \<Rightarrow> np_float \<Rightarrow> bool" where
  "np_gt (Num x) (Num y) = (y < x)"
| "np_gt _ _ = False"

fun np_le :: "np_float \<Rightarrow> np_float \<Rightarrow> bool" where
  "np_le (Num x) (Num y) = (x \<le> y)"
| "np_le _ _ = False"

fun np_ne :: "np_float \<Rightarrow> np_float \<Rightarrow> bool" where
  "np_ne (Num x) (Num y) = (x \<noteq> y)"
| "np_ne _ _ = True"

text \<open>\<open>np.sum\<close> of a vector, and \<open>np.mean\<close>: the sum over the length, NaN for no element.\<close>

fun np_sum :: "np_float list \<Rightarrow> np_float" where
  "np_sum [] = Num 0"
| "np_sum (x # xs) = np_add x (np_sum xs)"

definition np_mean :: "np_float list \<Rightarrow> np_float" where
  "np_mean xs = np_div (np_sum xs) (Num (real (length xs)))"

text \<open>
  \<open>Series.sum()\<close>, which \<open>np.sum\<close> of a pandas Series calls: the NaN entries are
  skipped, and the sum of what is left is a number, 0 when nothing is left.
\<close>

fun finite_values :: "np_float list \<Rightarrow> real list" where
  "finite_values [] = []"
| "finite_values (Num x # xs) = x # finite_values xs"
| "finite_values (NaN # xs) = finite_values xs"

definition pd_sum :: "np_float list \<Rightarrow> np_float" where
  "pd_sum xs = Num (sum_list (finite_values xs))"

text \<open>
  \<open>np.dot\<close> of two vectors and of a matrix (a list of rows) with a vector. numpy
  raises ValueError on operands whose shapes do not fit: the callers check the lengths
  first, see \<open>calculate_diversification_ratio\<close> and \<open>evaluate\<close>.
\<close>

definition np_dot :: "np_float list \<Rightarrow> np_float list \<Rightarrow> np_float" where
  "np_dot xs ys = np_sum (map2 np_mul xs ys)"

definition np_dot_mv :: "np_float list list \<Rightarrow> np_float list \<Rightarrow> np_float list" where
  "np_dot_mv m v = map (\<lambda>row. np_dot row v) m"

text \<open>\<open>cov_matrix * 252\<close>: every entry times a scalar.\<close>

definition scale_matrix :: "np_float list list \<Rightarrow> real \<Rightarrow> np_float list list" where
  "scale_matrix m c = map (map (\<lambda>x. np_mul x (Num c))) m"

text \<open>\<open>np.diag\<close> of a square matrix.\<close>

definition np_diag :: "np_float list list \<Rightarrow> np_float list" where
  "np_diag m = map (\<lambda>i. (m ! i) ! i) [0..<length m]"

text \<open>
  The exceptions of the program: numpy's and pandas' ValueError on operands whose
  shapes do not fit, Python's ZeroDivisionError, and whatever the download raises.
\<close>

datatype exn = ValueError | ZeroDivisionError | DownloadError

section \<open>The diversification ratio\<close>

text \<open>
  \<^verbatim>\<open>
  def _calculate_diversification_ratio(self, cov_matrix, weights):
      weighted_vol = np.sqrt(np.dot(weights.T, np.dot(cov_matrix, weights)))
      average_vol = np.sqrt(np.mean(np.diag(cov_matrix)))
      return average_vol / weighted_vol if weighted_vol > 0 else 1
  \<close>
\<close>

definition weighted_vol :: "np_float list list \<Rightarrow> np_float list \<Rightarrow> np_float" where
  "weighted_vol cov_matrix weights = np_sqrt (np_dot weights (np_dot_mv cov_matrix weights))"

definition average_vol :: "np_float list list \<Rightarrow> np_float" where
  "average_vol cov_matrix = np_sqrt (np_mean (np_diag cov_matrix))"

text \<open>The value of the \<open>return\<close> in the last line.\<close>

definition ratio_value :: "np_float list list \<Rightarrow> np_float list \<Rightarrow> np_float" where
  "ratio_value cov_matrix weights =
     (if np_gt (weighted_vol cov_matrix weights) (Num 0)
      then np_div (average_vol cov_matrix) (weighted_vol cov_matrix weights)
      else Num 1)"

text \<open>
  \<open>np.dot(cov_matrix, weights)\<close> raises ValueError unless every row of the matrix has
  as many entries as there are weights, and \<open>np.dot(weights.T, ...)\<close> raises unless the
  matrix has as many rows as there are weights. An exception is \<open>Inl\<close>, the returned
  value is \<open>Inr\<close>.
\<close>

definition calculate_diversification_ratio ::
    "np_float list list \<Rightarrow> np_float list \<Rightarrow> exn + np_float" where
  "calculate_diversification_ratio cov_matrix weights =
     (if length cov_matrix \<noteq> length weights
         \<or> (\<exists>row \<in> set cov_matrix. length row \<noteq> length weights)
      then Inl ValueError
      else Inr (ratio_value cov_matrix weights))"

section \<open>The download and the moment estimates\<close>

text \<open>
  Both operations start from \<^verbatim>\<open>yf.download(tickers, ...)['Adj Close']\<close> and
  \<^verbatim>\<open>returns = data.pct_change().dropna()\<close>. The download is outside the program: its
  outcome is an input of the model, either an exception or a table, of which the model
  keeps \<open>data.empty\<close>, the number of columns (one per ticker) and the rows of
  \<open>returns\<close>, which hold no NaN after \<open>dropna\<close>.
\<close>

record price_data =
  data_empty :: bool
  columns :: nat
  returns :: "real list list"

definition column :: "real list list \<Rightarrow> nat \<Rightarrow> real list" where
  "column rows j = map (\<lambda>row. row ! j) rows"

definition mean :: "real list \<Rightarrow> real" where
  "mean xs = sum_list xs / real (length xs)"

text \<open>
  \<open>returns.mean()\<close>: the mean of every column, NaN for a table without rows.
  \<open>returns.cov()\<close>: the sample covariance of every pair of columns with divisor
  \<open>N - 1\<close>, NaN for a table with fewer than two rows.
\<close>

definition pd_mean :: "price_data \<Rightarrow> np_float list" where
  "pd_mean data =
     map (\<lambda>j. if returns data = [] then NaN else Num (mean (column (returns data) j)))
       [0..<columns data]"

definition covariance :: "real list \<Rightarrow> real list \<Rightarrow> np_float" where
  "covariance xs ys =
     (if length xs < 2 then NaN
      else Num (sum_list (map2 (\<lambda>x y. (x - mean xs) * (y - mean ys)) xs ys)
                / (real (length xs) - 1)))"

definition pd_cov :: "price_data \<Rightarrow> np_float list list" where
  "pd_cov data =
     map (\<lambda>i. map (\<lambda>j. covariance (column (returns data) i) (column (returns data) j))
                [0..<columns data])
       [0..<columns data]"

section \<open>The random generator\<close>

text \<open>
  \<open>np.random.random(n)\<close> reads the generator of the process and advances it. The
  generator is the sequence of the numbers it will return, each in \<open>[0, 1)\<close>; a call
  takes the first \<open>n\<close> of them and leaves the rest.
\<close>

type_synonym rng = "nat \<Rightarrow> real"

definition np_random_random :: "nat \<Rightarrow> rng \<Rightarrow> real list \<times> rng" where
  "np_random_random n g = (map g [0..<n], \<lambda>i. g (i + n))"

text \<open>\<^verbatim>\<open>weights /= np.sum(weights)\<close>\<close>

definition normalize_weights :: "real list \<Rightarrow> np_float list" where
  "normalize_weights ds = map (\<lambda>d. np_div (Num d) (np_sum (map Num ds))) ds"

section \<open>Return, volatility and Sharpe ratio of a weight vector\<close>

text \<open>
  \<^verbatim>\<open>
  portfolio_ret = np.sum(mean_returns * weights) * 252
  portfolio_vol = np.sqrt(np.dot(weights.T, np.dot(cov_matrix * 252, weights)))
  results[2,i] = (portfolio_ret - self.risk_free_rate) / portfolio_vol if portfolio_vol > 0 else 0
  \<close>
  The baseline (lines 36 to 38) and every trial (lines 50 to 55) use the same three
  formulas. \<open>mean_returns * weights\<close> is a pandas Series, so that \<open>np.sum\<close> skips its
  NaN entries; \<open>cov_matrix * 252\<close> goes through \<open>np.dot\<close>, which keeps them. A weight
  vector whose length is not the number of columns makes \<open>np.dot\<close> raise ValueError.
\<close>

record portfolio_point =
  weights :: "np_float list"
  expected_return :: np_float
  volatility :: np_float
  sharpe_ratio :: np_float

definition portfolio_ret :: "np_float list \<Rightarrow> np_float list \<Rightarrow> np_float" where
  "portfolio_ret mean_returns w = np_mul (pd_sum (map2 np_mul mean_returns w)) (Num 252)"

definition portfolio_vol :: "np_float list list \<Rightarrow> np_float list \<Rightarrow> np_float" where
  "portfolio_vol cov_matrix w = np_sqrt (np_dot w (np_dot_mv (scale_matrix cov_matrix 252) w))"

definition sharpe :: "real \<Rightarrow> np_float \<Rightarrow> np_float \<Rightarrow> np_float" where
  "sharpe risk_free_rate ret vol =
     (if np_gt vol (Num 0) then np_div (np_sub ret (Num risk_free_rate)) vol else Num 0)"

definition point_of :: "real \<Rightarrow> price_data \<Rightarrow> np_float list \<Rightarrow> portfolio_point" where
  "point_of risk_free_rate data w =
     \<lparr>weights = w,
      expected_return = portfolio_ret (pd_mean data) w,
      volatility = portfolio_vol (pd_cov data) w,
      sharpe_ratio = sharpe risk_free_rate (portfolio_ret (pd_mean data) w)
                       (portfolio_vol (pd_cov data) w)\<rparr>"

definition evaluate :: "real \<Rightarrow> price_data \<Rightarrow> np_float list \<Rightarrow> exn + portfolio_point" where
  "evaluate risk_free_rate data w =
     (if length w \<noteq> columns data then Inl ValueError
      else Inr (point_of risk_free_rate data w))"

section \<open>The sampling loop\<close>

text \<open>
  \<^verbatim>\<open>
  num_portfolios = 10000
  for i in range(num_portfolios):
      weights = np.random.random(len(tickers))
      weights /= np.sum(weights)
      weights_record.append(weights)
      ...
  \<close>
  The loop returns the points in the order of the trials, \<open>weights_record\<close> and the
  three rows of \<open>results\<close> being their fields, and the generator it leaves. An
  exception ends it where it is raised.
\<close>

definition num_portfolios :: nat where
  "num_portfolios = 10000"

fun sample_loop :: "nat \<Rightarrow> real \<Rightarrow> price_data \<Rightarrow> nat \<Rightarrow> rng \<Rightarrow> (exn + portfolio_point list) \<times> rng" where
  "sample_loop 0 risk_free_rate data n g = (Inr [], g)"
| "sample_loop (Suc k) risk_free_rate data n g =
     (case np_random_random n g of (ds, g1) \<Rightarrow>
        (case evaluate risk_free_rate data (normalize_weights ds) of
           Inl e \<Rightarrow> (Inl e, g1)
         | Inr p \<Rightarrow>
             (case sample_loop k risk_free_rate data n g1 of
                (Inl e, g2) \<Rightarrow> (Inl e, g2)
              | (Inr ps, g2) \<Rightarrow> (Inr (p # ps), g2))))"

section \<open>arg-max and arg-min\<close>

text \<open>
  \<open>np.argmax\<close> returns the first index of the largest entry, and the index of the first
  NaN when there is one; an empty array raises ValueError. numpy scans the array with
  the test \<open>not (x <= best)\<close> and stops at a NaN; \<open>np.argmin\<close> is its mirror image
  (\<open>not (x >= best)\<close>).
\<close>

fun argmax_scan :: "np_float \<Rightarrow> nat \<Rightarrow> nat \<Rightarrow> np_float list \<Rightarrow> nat" where
  "argmax_scan best bi i [] = bi"
| "argmax_scan best bi i (x # xs) =
     (if best = NaN then bi
      else if \<not> np_le x best then argmax_scan x i (Suc i) xs
      else argmax_scan best bi (Suc i) xs)"

fun argmin_scan :: "np_float \<Rightarrow> nat \<Rightarrow> nat \<Rightarrow> np_float list \<Rightarrow> nat" where
  "argmin_scan best bi i [] = bi"
| "argmin_scan best bi i (x # xs) =
     (if best = NaN then bi
      else if \<not> np_le best x then argmin_scan x i (Suc i) xs
      else argmin_scan best bi (Suc i) xs)"

fun np_argmax :: "np_float list \<Rightarrow> exn + nat" where
  "np_argmax [] = Inl ValueError"
| "np_argmax (x # xs) = Inr (argmax_scan x 0 1 xs)"

fun np_argmin :: "np_float list \<Rightarrow> exn + nat" where
  "np_argmin [] = Inl ValueError"
| "np_argmin (x # xs) = Inr (argmin_scan x 0 1 xs)"

section \<open>optimize\_portfolio\<close>

record stock_metric =
  weight_max_sharpe :: np_float
  weight_min_vol :: np_float
  stock_annual_return :: np_float
  stock_annual_volatility :: np_float
  stock_sharpe_ratio :: np_float

record frontier =
  frontier_returns :: "np_float list"
  frontier_volatilities :: "np_float list"
  frontier_sharpe_ratios :: "np_float list"

text \<open>
  The dictionary that \<open>optimize_portfolio\<close> returns; the two entries of
  \<open>'optimized_portfolios'\<close> are the fields \<open>max_sharpe\<close> and \<open>min_volatility\<close>.
\<close>

record optimization =
  result_tickers :: "string list"
  current_portfolio :: portfolio_point
  max_sharpe :: portfolio_point
  min_volatility :: portfolio_point
  stock_metrics :: "string \<rightharpoonup> stock_metric"
  diversification_ratio :: np_float
  efficient_frontier :: frontier

datatype 'a py_dict = Empty_dict | Dict 'a

text \<open>
  \<^verbatim>\<open>
  if initial_weights is None:
      initial_weights = np.array([1/len(tickers)] * len(tickers))
  \<close>
  \<open>1/len(tickers)\<close> is evaluated first and raises ZeroDivisionError for no ticker.
\<close>

definition default_weights :: "string list \<Rightarrow> np_float list option \<Rightarrow> exn + np_float list" where
  "default_weights tickers initial_weights =
     (case initial_weights of
        Some w \<Rightarrow> Inr w
      | None \<Rightarrow>
          if length tickers = 0 then Inl ZeroDivisionError
          else Inr (replicate (length tickers) (Num (1 / real (length tickers)))))"

definition stock_metric_of ::
    "real \<Rightarrow> price_data \<Rightarrow> np_float list \<Rightarrow> np_float list \<Rightarrow> nat \<Rightarrow> stock_metric" where
  "stock_metric_of risk_free_rate data max_sharpe_weights min_vol_weights i =
     \<lparr>weight_max_sharpe = max_sharpe_weights ! i,
      weight_min_vol = min_vol_weights ! i,
      stock_annual_return = np_mul (pd_mean data ! i) (Num 252),
      stock_annual_volatility = np_sqrt (np_mul (pd_cov data ! i ! i) (Num 252)),
      stock_sharpe_ratio =
        (if np_gt (np_sqrt (np_mul (pd_cov data ! i ! i) (Num 252))) (Num 0)
         then np_div (np_sub (np_mul (pd_mean data ! i) (Num 252)) (Num risk_free_rate))
                (np_sqrt (np_mul (pd_cov data ! i ! i) (Num 252)))
         else Num 0)\<rparr>"

definition stock_metrics_of ::
    "real \<Rightarrow> price_data \<Rightarrow> string list \<Rightarrow> np_float list \<Rightarrow> np_float list
       \<Rightarrow> (string \<rightharpoonup> stock_metric)" where
  "stock_metrics_of risk_free_rate data tickers max_sharpe_weights min_vol_weights =
     fold (\<lambda>(i, ticker) m.
             m(ticker \<mapsto> stock_metric_of risk_free_rate data max_sharpe_weights min_vol_weights i))
       (enumerate 0 tickers) Map.empty"

text \<open>
  What the function returns once the loop is over (lines 57 to 113), from the baseline
  point, the sampled points, the two indices and the diversification ratio.
\<close>

definition assemble ::
    "real \<Rightarrow> price_data \<Rightarrow> string list \<Rightarrow> portfolio_point \<Rightarrow> portfolio_point list
       \<Rightarrow> nat \<Rightarrow> nat \<Rightarrow> np_float \<Rightarrow> optimization" where
  "assemble risk_free_rate data tickers current points max_sharpe_idx min_vol_idx div_ratio =
     \<lparr>result_tickers = tickers,
      current_portfolio = current,
      max_sharpe = points ! max_sharpe_idx,
      min_volatility = points ! min_vol_idx,
      stock_metrics =
        stock_metrics_of risk_free_rate data tickers
          (weights (points ! max_sharpe_idx)) (weights (points ! min_vol_idx)),
      diversification_ratio = div_ratio,
      efficient_frontier =
        \<lparr>frontier_returns = map expected_return points,
         frontier_volatilities = map volatility points,
         frontier_sharpe_ratios = map sharpe_ratio points\<rparr>\<rparr>"

text \<open>The body of the \<open>try\<close>: an exception is \<open>Inl\<close>, a \<open>return\<close> is \<open>Inr\<close>.\<close>

definition optimize_body ::
    "real \<Rightarrow> string list \<Rightarrow> np_float list option \<Rightarrow> exn + price_data \<Rightarrow> rng
       \<Rightarrow> (exn + optimization py_dict) \<times> rng" where
  "optimize_body risk_free_rate tickers initial_weights download g =
     (case download of
        Inl e \<Rightarrow> (Inl e, g)
      | Inr data \<Rightarrow>
          if data_empty data then (Inr Empty_dict, g)
          else
            (case default_weights tickers initial_weights of
               Inl e \<Rightarrow> (Inl e, g)
             | Inr w0 \<Rightarrow>
                 (case evaluate risk_free_rate data w0 of
                    Inl e \<Rightarrow> (Inl e, g)
                  | Inr current \<Rightarrow>
                      (case sample_loop num_portfolios risk_free_rate data (length tickers) g of
                         (Inl e, g') \<Rightarrow> (Inl e, g')
                       | (Inr points, g') \<Rightarrow>
                           (case np_argmax (map sharpe_ratio points) of
                              Inl e \<Rightarrow> (Inl e, g')
                            | Inr max_sharpe_idx \<Rightarrow>
                                (case np_argmin (map volatility points) of
                                   Inl e \<Rightarrow> (Inl e, g')
                                 | Inr min_vol_idx \<Rightarrow>
                                     (case calculate_diversification_ratio (pd_cov data)
                                             (weights (points ! max_sharpe_idx)) of
                                        Inl e \<Rightarrow> (Inl e, g')
                                      | Inr div_ratio \<Rightarrow>
                                          (Inr (Dict (assemble risk_free_rate data tickers current
                                                       points max_sharpe_idx min_vol_idx
                                                       div_ratio)), g'))))))))"

text \<open>
  \<^verbatim>\<open>
  except Exception as e:
      print(f"Error optimizing portfolio: {e}")
      return {}
  \<close>
  The outcome of a call is \<open>Inl\<close> for an exception that reaches the caller and \<open>Inr\<close>
  for a returned value, with the generator the call leaves.
\<close>

definition optimize_portfolio ::
    "real \<Rightarrow> string list \<Rightarrow> np_float list option \<Rightarrow> exn + price_data \<Rightarrow> rng
       \<Rightarrow> (exn + optimization py_dict) \<times> rng" where
  "optimize_portfolio risk_free_rate tickers initial_weights download g =
     (case optimize_body risk_free_rate tickers initial_weights download g of
        (Inl e, g') \<Rightarrow> (Inr Empty_dict, g')
      | (Inr r, g') \<Rightarrow> (Inr r, g'))"

section \<open>calculate\_portfolio\_metrics\<close>

text \<open>
  \<open>portfolio\<close> is a dictionary from ticker to weight: the list of its items, in the
  order of \<open>portfolio.keys()\<close> and \<open>portfolio.values()\<close>.
  \<^verbatim>\<open>portfolio_returns = returns.dot(weights)\<close> is one number per row of \<open>returns\<close>;
  pandas raises ValueError when the number of weights is not the number of columns.
\<close>

definition portfolio_returns :: "real list list \<Rightarrow> real list \<Rightarrow> real list" where
  "portfolio_returns rows ws = map (\<lambda>row. sum_list (map2 (*) row ws)) rows"

definition total_return :: "real list \<Rightarrow> real" where
  "total_return pr = prod_list (map (\<lambda>r. 1 + r) pr) - 1"

definition annual_return :: "real list \<Rightarrow> np_float" where
  "annual_return pr = np_div (Num (total_return pr * 252)) (Num (real (length pr)))"

text \<open>\<open>Series.std()\<close>: divisor \<open>N - 1\<close>, NaN for fewer than two values.\<close>

definition pd_std :: "real list \<Rightarrow> np_float" where
  "pd_std xs =
     (if length xs < 2 then NaN
      else Num (sqrt (sum_list (map (\<lambda>x. (x - mean xs)\<^sup>2) xs) / (real (length xs) - 1))))"

definition annual_volatility :: "real list \<Rightarrow> np_float" where
  "annual_volatility pr = np_mul (pd_std pr) (Num (sqrt 252))"

text \<open>\<open>cumprod()\<close> and \<open>expanding(min_periods=1).max()\<close>.\<close>

fun cumprod_from :: "real \<Rightarrow> real list \<Rightarrow> real list" where
  "cumprod_from acc [] = []"
| "cumprod_from acc (x # xs) = (acc * x) # cumprod_from (acc * x) xs"

fun expanding_max_from :: "real \<Rightarrow> real list \<Rightarrow> real list" where
  "expanding_max_from m [] = []"
| "expanding_max_from m (x # xs) = max m x # expanding_max_from (max m x) xs"

fun expanding_max :: "real list \<Rightarrow> real list" where
  "expanding_max [] = []"
| "expanding_max (x # xs) = x # expanding_max_from x xs"

definition cumulative :: "real list \<Rightarrow> real list" where
  "cumulative pr = cumprod_from 1 (map (\<lambda>r. 1 + r) pr)"

definition drawdown :: "real list \<Rightarrow> np_float list" where
  "drawdown pr =
     map2 (\<lambda>c p. np_div (Num (c - p)) (Num p)) (cumulative pr) (expanding_max (cumulative pr))"

text \<open>\<open>Series.min()\<close> skips NaN and is NaN when nothing is left.\<close>

definition pd_min :: "np_float list \<Rightarrow> np_float" where
  "pd_min xs = (if finite_values xs = [] then NaN else Num (min_list (finite_values xs)))"

definition max_drawdown :: "real list \<Rightarrow> np_float" where
  "max_drawdown pr = pd_min (drawdown pr)"

text \<open>
  \<^verbatim>\<open>
  downside_returns = portfolio_returns[portfolio_returns < 0]
  downside_deviation = np.sqrt(np.mean(downside_returns**2)) * np.sqrt(252) if len(downside_returns) > 0 else 0
  sortino_ratio = (annual_return - self.risk_free_rate) / downside_deviation if downside_deviation > 0 else 0
  \<close>
\<close>

definition downside_returns :: "real list \<Rightarrow> real list" where
  "downside_returns pr = filter (\<lambda>r. r < 0) pr"

definition downside_deviation :: "real list \<Rightarrow> np_float" where
  "downside_deviation pr =
     (if length (downside_returns pr) > 0
      then np_mul (np_sqrt (np_mean (map (\<lambda>r. Num (r\<^sup>2)) (downside_returns pr)))) (Num (sqrt 252))
      else Num 0)"

definition sortino_ratio :: "real \<Rightarrow> real list \<Rightarrow> np_float" where
  "sortino_ratio risk_free_rate pr =
     (if np_gt (downside_deviation pr) (Num 0)
      then np_div (np_sub (annual_return pr) (Num risk_free_rate)) (downside_deviation pr)
      else Num 0)"

definition calmar_ratio :: "real list \<Rightarrow> np_float" where
  "calmar_ratio pr =
     (if np_ne (max_drawdown pr) (Num 0)
      then np_div (annual_return pr) (np_abs (max_drawdown pr))
      else Num 0)"

definition win_rate :: "real list \<Rightarrow> np_float" where
  "win_rate pr =
     (if length pr > 0
      then Num (real (length (filter (\<lambda>r. r > 0) pr)) / real (length pr))
      else Num 0)"

definition avg_win :: "real list \<Rightarrow> np_float" where
  "avg_win pr = (if \<exists>r \<in> set pr. r > 0 then Num (mean (filter (\<lambda>r. r > 0) pr)) else Num 0)"

definition avg_loss :: "real list \<Rightarrow> np_float" where
  "avg_loss pr = (if \<exists>r \<in> set pr. r < 0 then Num (mean (filter (\<lambda>r. r < 0) pr)) else Num 0)"

definition profit_factor :: "real list \<Rightarrow> np_float" where
  "profit_factor pr =
     (if (\<exists>r \<in> set pr. r < 0) \<and> sum_list (filter (\<lambda>r. r < 0) pr) \<noteq> 0
      then Num \<bar>sum_list (filter (\<lambda>r. r > 0) pr) / sum_list (filter (\<lambda>r. r < 0) pr)\<bar>
      else Num 0)"

record metrics =
  metrics_total_return :: np_float
  metrics_annual_return :: np_float
  metrics_annual_volatility :: np_float
  metrics_sharpe_ratio :: np_float
  metrics_sortino_ratio :: np_float
  metrics_calmar_ratio :: np_float
  metrics_max_drawdown :: np_float
  metrics_win_rate :: np_float
  metrics_avg_win :: np_float
  metrics_avg_loss :: np_float
  metrics_profit_factor :: np_float

definition metrics_of :: "real \<Rightarrow> real list \<Rightarrow> metrics" where
  "metrics_of risk_free_rate pr =
     \<lparr>metrics_total_return = Num (total_return pr),
      metrics_annual_return = annual_return pr,
      metrics_annual_volatility = annual_volatility pr,
      metrics_sharpe_ratio = sharpe risk_free_rate (annual_return pr) (annual_volatility pr),
      metrics_sortino_ratio = sortino_ratio risk_free_rate pr,
      metrics_calmar_ratio = calmar_ratio pr,
      metrics_max_drawdown = max_drawdown pr,
      metrics_win_rate = win_rate pr,
      metrics_avg_win = avg_win pr,
      metrics_avg_loss = avg_loss pr,
      metrics_profit_factor = profit_factor pr\<rparr>"

definition metrics_body ::
    "real \<Rightarrow> (string \<times> real) list \<Rightarrow> exn + price_data \<Rightarrow> exn + metrics py_dict" where
  "metrics_body risk_free_rate portfolio download =
     (if map fst portfolio = [] then Inr Empty_dict
      else
        (case download of
           Inl e \<Rightarrow> Inl e
         | Inr data \<Rightarrow>
             if data_empty data then Inr Empty_dict
             else if length (map snd portfolio) \<noteq> columns data then Inl ValueError
             else Inr (Dict (metrics_of risk_free_rate
                               (portfolio_returns (returns data) (map snd portfolio))))))"

text \<open>
  \<^verbatim>\<open>
  except Exception as e:
      print(f"Error calculating portfolio metrics: {e}")
      return {}
  \<close>
\<close>

definition calculate_portfolio_metrics ::
    "real \<Rightarrow> (string \<times> real) list \<Rightarrow> exn + price_data \<Rightarrow> exn + metrics py_dict" where
  "calculate_portfolio_metrics risk_free_rate portfolio download =
     (case metrics_body risk_free_rate portfolio download of
        Inl e \<Rightarrow> Inr Empty_dict
      | Inr r \<Rightarrow> Inr r)"

section \<open>Notions used in the statements\<close>

text \<open>
  The draws of trial \<open>i\<close> of a run over \<open>n\<close> assets that starts with the generator
  \<open>g\<close>, the point the trial evaluates, and the sample set of a run.
\<close>

definition draws :: "rng \<Rightarrow> nat \<Rightarrow> nat \<Rightarrow> real list" where
  "draws g n i = map (\<lambda>j. g (i * n + j)) [0..<n]"

definition trial :: "real \<Rightarrow> price_data \<Rightarrow> nat \<Rightarrow> rng \<Rightarrow> nat \<Rightarrow> portfolio_point" where
  "trial risk_free_rate data n g i =
     point_of risk_free_rate data (normalize_weights (draws g n i))"

definition sampled_points :: "real \<Rightarrow> price_data \<Rightarrow> nat \<Rightarrow> rng \<Rightarrow> portfolio_point list" where
  "sampled_points risk_free_rate data n g = map (trial risk_free_rate data n g) [0..<num_portfolios]"

text \<open>
  The dictionary of a run with baseline weights \<open>w0\<close> whose scans return the indices
  \<open>ms\<close> and \<open>mv\<close>.
\<close>

definition run_dict ::
    "real \<Rightarrow> price_data \<Rightarrow> string list \<Rightarrow> np_float list \<Rightarrow> rng \<Rightarrow> nat \<Rightarrow> nat \<Rightarrow> optimization" where
  "run_dict risk_free_rate data tickers w0 g ms mv =
     assemble risk_free_rate data tickers (point_of risk_free_rate data w0)
       (sampled_points risk_free_rate data (length tickers) g) ms mv
       (ratio_value (pd_cov data)
          (weights (sampled_points risk_free_rate data (length tickers) g ! ms)))"

text \<open>
  What numpy's scan selects: an index of the array whose entry is NaN, or is
  comparable with every entry and at least (at most) as large.
\<close>

definition is_argmax :: "np_float list \<Rightarrow> nat \<Rightarrow> bool" where
  "is_argmax ys r \<longleftrightarrow>
     r < length ys \<and> (ys ! r = NaN \<or> (\<forall>j < length ys. np_le (ys ! j) (ys ! r)))"

definition is_argmin :: "np_float list \<Rightarrow> nat \<Rightarrow> bool" where
  "is_argmin ys r \<longleftrightarrow>
     r < length ys \<and> (ys ! r = NaN \<or> (\<forall>j < length ys. np_le (ys ! r) (ys ! j)))"

text \<open>
  The diversification ratio in the words of the specification, on real numbers:
  the square root of the mean of the diagonal of the covariance matrix over
  \<open>sqrt (w\<^sup>T C w)\<close>, and 1 when the latter is 0.
\<close>

definition quadratic_form :: "real list list \<Rightarrow> real list \<Rightarrow> real" where
  "quadratic_form C w = sum_list (map2 (*) w (map (\<lambda>row. sum_list (map2 (*) row w)) C))"

definition spec_portfolio_volatility :: "real list list \<Rightarrow> real list \<Rightarrow> real" where
  "spec_portfolio_volatility C w = sqrt (quadratic_form C w)"

definition spec_average_individual_volatility :: "real list list \<Rightarrow> real" where
  "spec_average_individual_volatility C =
     sqrt (sum_list (map (\<lambda>i. C ! i ! i) [0..<length C]) / real (length C))"

definition spec_diversification_ratio :: "real list list \<Rightarrow> real list \<Rightarrow> real" where
  "spec_diversification_ratio C w =
     (if spec_portfolio_volatility C w = 0 then 1
      else spec_average_individual_volatility C / spec_portfolio_volatility C w)"

text \<open>
  The Sharpe ratio in the words of the specification: the excess return over the
  volatility when the volatility is positive, 0 otherwise.
\<close>

definition spec_sharpe :: "real \<Rightarrow> np_float \<Rightarrow> np_float \<Rightarrow> np_float" where
  "spec_sharpe r_f expected_ret vol =
     (case vol of
        Num v \<Rightarrow>
          if 0 < v then (case expected_ret of Num x \<Rightarrow> Num ((x - r_f) / v) | NaN \<Rightarrow> NaN)
          else Num 0
      | NaN \<Rightarrow> Num 0)"

text \<open>Inputs for the examples: a generator that always returns \<open>c\<close>, and price tables.\<close>

definition constant_rng :: "real \<Rightarrow> rng" where
  "constant_rng c = (\<lambda>i. c)"

definition flat_history :: price_data where
  "flat_history = \<lparr>data_empty = False, columns = 2,
                    returns = [[1/100, 1/100], [1/100, 1/100]]\<rparr>"

definition short_history :: price_data where
  "short_history = \<lparr>data_empty = False, columns = 2, returns = [[1/100, 2/100]]\<rparr>"


text \<open>
  The Sortino ratio in the words of the specification, on real numbers: the
  annualised return in excess of the risk-free rate over the downside deviation, which
  is the root-mean-square of the negative returns times \<open>sqrt 252\<close>; 0 when no return
  is negative.
\<close>

definition root_mean_square :: "real list \<Rightarrow> real" where
  "root_mean_square xs = sqrt (sum_list (map (\<lambda>x. x\<^sup>2) xs) / real (length xs))"

definition spec_downside_deviation :: "real list \<Rightarrow> real" where
  "spec_downside_deviation pr = root_mean_square (filter (\<lambda>r. r < 0) pr) * sqrt 252"

definition spec_sortino :: "real \<Rightarrow> real list \<Rightarrow> real" where
  "spec_sortino r_f pr =
     (if filter (\<lambda>r. r < 0) pr = [] then 0
      else (total_return pr * 252 / real (length pr) - r_f) / spec_downside_deviation pr)"

definition mixed_history :: price_data where
  "mixed_history = \<lparr>data_empty = False, columns = 2,
                     returns = [[1/100, 2/100], [-3/100, -1/100], [2/100, 0]]\<rparr>"

section \<open>Lemmas on the loop, the scans and the outcome of a run\<close>

lemma length_normalize_weights [simp]: "length (normalize_weights ds) = length ds"
  by (simp add: normalize_weights_def)

lemma length_draws [simp]: "length (draws g n i) = n"
  by (simp add: draws_def)

lemma length_pd_cov [simp]: "length (pd_cov data) = columns data"
  by (simp add: pd_cov_def)

lemma length_pd_mean [simp]: "length (pd_mean data) = columns data"
  by (simp add: pd_mean_def)

lemma draws_shift: "draws (\<lambda>i. g (i + n)) n i = draws g n (Suc i)"
  by (simp add: draws_def add.commute add.left_commute)

lemma trial_shift: "trial rf data n (\<lambda>i. g (i + n)) i = trial rf data n g (Suc i)"
  by (simp add: trial_def draws_shift)

lemma sample_loop_ok:
  "columns data = n \<Longrightarrow>
   sample_loop k rf data n g = (Inr (map (trial rf data n g) [0..<k]), \<lambda>i. g (i + k * n))"
proof (induction k arbitrary: g)
  case 0
  then show ?case by simp
next
  case (Suc k)
  have first: "map g [0..<n] = draws g n 0" by (simp add: draws_def)
  have rest: "map (trial rf data n (\<lambda>i. g (i + n))) [0..<k] = map (trial rf data n g) (map Suc [0..<k])"
    by (simp add: trial_shift)
  have upt: "[0..<Suc k] = 0 # map Suc [0..<k]"
    by (simp add: upt_conv_Cons map_Suc_upt del: upt_Suc)
  show ?case
    using Suc.prems
    apply (simp only: sample_loop.simps np_random_random_def prod.case)
    apply (simp only: Suc.IH [OF Suc.prems] evaluate_def first)
    apply (simp add: rest trial_def upt del: upt_Suc)
    apply (simp add: draws_def ac_simps)
    done
qed

lemma sample_loop_fail:
  "columns data \<noteq> n \<Longrightarrow>
   sample_loop (Suc k) rf data n g = (Inl ValueError, \<lambda>i. g (i + n))"
  by (simp add: np_random_random_def evaluate_def)



lemma np_le_refl: "x \<noteq> NaN \<Longrightarrow> np_le x x"
  by (cases x) auto

lemma np_le_step_up: "np_le a b \<Longrightarrow> \<not> np_le x b \<Longrightarrow> x \<noteq> NaN \<Longrightarrow> np_le a x"
  by (cases a; cases b; cases x) auto

lemma np_le_step_down: "np_le b a \<Longrightarrow> \<not> np_le b x \<Longrightarrow> x \<noteq> NaN \<Longrightarrow> np_le x a"
  by (cases a; cases b; cases x) auto

lemma np_le_not_gt: "np_le a b \<Longrightarrow> \<not> np_gt a b"
  by (cases a; cases b) auto

lemma np_gt_NaN [simp]: "\<not> np_gt a NaN" "\<not> np_gt NaN a"
  by (cases a; simp)+

lemma np_le_NaN [simp]: "\<not> np_le a NaN" "\<not> np_le NaN a"
  by (cases a; simp)+

lemma argmax_scan_inv:
  "length pre = i \<Longrightarrow> bi < i \<Longrightarrow> pre ! bi = best \<Longrightarrow>
   (best \<noteq> NaN \<longrightarrow> (\<forall>j < i. np_le (pre ! j) best)) \<Longrightarrow>
   is_argmax (pre @ xs) (argmax_scan best bi i xs)"
proof (induction xs arbitrary: pre i bi best)
  case Nil
  then show ?case by (auto simp: is_argmax_def)
next
  case (Cons x xs)
  show ?case
  proof (cases "best = NaN")
    case True
    with Cons.prems show ?thesis by (simp add: is_argmax_def nth_append)
  next
    case False
    note best = this
    show ?thesis
    proof (cases "np_le x best")
      case True
      have "is_argmax ((pre @ [x]) @ xs) (argmax_scan best bi (Suc i) xs)"
      proof (rule Cons.IH)
        show "length (pre @ [x]) = Suc i" using Cons.prems by simp
        show "bi < Suc i" using Cons.prems by simp
        show "(pre @ [x]) ! bi = best" using Cons.prems by (simp add: nth_append)
        show "best \<noteq> NaN \<longrightarrow> (\<forall>j<Suc i. np_le ((pre @ [x]) ! j) best)"
          using Cons.prems True by (auto simp: nth_append less_Suc_eq)
      qed
      with best True show ?thesis by simp
    next
      case False
      have "is_argmax ((pre @ [x]) @ xs) (argmax_scan x i (Suc i) xs)"
      proof (rule Cons.IH)
        show "length (pre @ [x]) = Suc i" using Cons.prems by simp
        show "i < Suc i" by simp
        show "(pre @ [x]) ! i = x" using Cons.prems by (simp add: nth_append)
        show "x \<noteq> NaN \<longrightarrow> (\<forall>j<Suc i. np_le ((pre @ [x]) ! j) x)"
          using Cons.prems best False
          by (auto simp: nth_append less_Suc_eq intro: np_le_step_up np_le_refl)
      qed
      with best False show ?thesis by simp
    qed
  qed
qed

lemma argmin_scan_inv:
  "length pre = i \<Longrightarrow> bi < i \<Longrightarrow> pre ! bi = best \<Longrightarrow>
   (best \<noteq> NaN \<longrightarrow> (\<forall>j < i. np_le best (pre ! j))) \<Longrightarrow>
   is_argmin (pre @ xs) (argmin_scan best bi i xs)"
proof (induction xs arbitrary: pre i bi best)
  case Nil
  then show ?case by (auto simp: is_argmin_def)
next
  case (Cons x xs)
  show ?case
  proof (cases "best = NaN")
    case True
    with Cons.prems show ?thesis by (simp add: is_argmin_def nth_append)
  next
    case False
    note best = this
    show ?thesis
    proof (cases "np_le best x")
      case True
      have "is_argmin ((pre @ [x]) @ xs) (argmin_scan best bi (Suc i) xs)"
      proof (rule Cons.IH)
        show "length (pre @ [x]) = Suc i" using Cons.prems by simp
        show "bi < Suc i" using Cons.prems by simp
        show "(pre @ [x]) ! bi = best" using Cons.prems by (simp add: nth_append)
        show "best \<noteq> NaN \<longrightarrow> (\<forall>j<Suc i. np_le best ((pre @ [x]) ! j))"
          using Cons.prems True by (auto simp: nth_append less_Suc_eq)
      qed
      with best True show ?thesis by simp
    next
      case False
      have "is_argmin ((pre @ [x]) @ xs) (argmin_scan x i (Suc i) xs)"
      proof (rule Cons.IH)
        show "length (pre @ [x]) = Suc i" using Cons.prems by simp
        show "i < Suc i" by simp
        show "(pre @ [x]) ! i = x" using Cons.prems by (simp add: nth_append)
        show "x \<noteq> NaN \<longrightarrow> (\<forall>j<Suc i. np_le x ((pre @ [x]) ! j))"
          using Cons.prems best False
          by (auto simp: nth_append less_Suc_eq intro: np_le_step_down np_le_refl)
      qed
      with best False show ?thesis by simp
    qed
  qed
qed

lemma np_argmax_ok: "xs \<noteq> [] \<Longrightarrow> \<exists>r. np_argmax xs = Inr r \<and> is_argmax xs r"
proof (cases xs)
  case Nil
  assume "xs \<noteq> []" with Nil show ?thesis by simp
next
  case (Cons x rest)
  have "is_argmax ([x] @ rest) (argmax_scan x 0 1 rest)"
    by (rule argmax_scan_inv) (auto intro: np_le_refl)
  with Cons show ?thesis by simp
qed

lemma np_argmin_ok: "xs \<noteq> [] \<Longrightarrow> \<exists>r. np_argmin xs = Inr r \<and> is_argmin xs r"
proof (cases xs)
  case Nil
  assume "xs \<noteq> []" with Nil show ?thesis by simp
next
  case (Cons x rest)
  have "is_argmin ([x] @ rest) (argmin_scan x 0 1 rest)"
    by (rule argmin_scan_inv) (auto intro: np_le_refl)
  with Cons show ?thesis by simp
qed



lemma num_portfolios_Suc: "num_portfolios = Suc 9999"
  by (simp add: num_portfolios_def)

lemma length_sampled_points [simp]: "length (sampled_points rf data n g) = num_portfolios"
  by (simp add: sampled_points_def)

lemma sampled_points_nonempty: "sampled_points rf data n g \<noteq> []"
  by (simp add: sampled_points_def num_portfolios_def)

lemma sample_loop_num:
  "sample_loop num_portfolios rf data n g =
     (if columns data = n
      then (Inr (sampled_points rf data n g), \<lambda>i. g (i + num_portfolios * n))
      else (Inl ValueError, \<lambda>i. g (i + n)))"
proof (cases "columns data = n")
  case True
  then show ?thesis by (simp add: sample_loop_ok sampled_points_def)
next
  case False
  then show ?thesis
    using sample_loop_fail [of data n 9999 rf g] by (simp add: num_portfolios_Suc)
qed

lemma sampled_points_nth:
  "i < num_portfolios \<Longrightarrow> sampled_points rf data n g ! i = trial rf data n g i"
  by (simp add: sampled_points_def)

lemma length_sampled_weights:
  "i < num_portfolios \<Longrightarrow> length (weights (sampled_points rf data n g ! i)) = n"
  by (simp add: sampled_points_nth trial_def point_of_def)

lemma calculate_diversification_ratio_pd_cov:
  "length w = columns data \<Longrightarrow>
   calculate_diversification_ratio (pd_cov data) w = Inr (ratio_value (pd_cov data) w)"
  by (auto simp: calculate_diversification_ratio_def pd_cov_def)

lemma optimize_body_ok:
  assumes "\<not> data_empty data" and "default_weights tickers iw = Inr w0"
    and "length w0 = columns data" and "columns data = length tickers"
  shows "\<exists>ms mv. optimize_body rf tickers iw (Inr data) g =
           (Inr (Dict (run_dict rf data tickers w0 g ms mv)),
            \<lambda>i. g (i + num_portfolios * length tickers))
         \<and> np_argmax (map sharpe_ratio (sampled_points rf data (length tickers) g)) = Inr ms
         \<and> np_argmin (map volatility (sampled_points rf data (length tickers) g)) = Inr mv
         \<and> is_argmax (map sharpe_ratio (sampled_points rf data (length tickers) g)) ms
         \<and> is_argmin (map volatility (sampled_points rf data (length tickers) g)) mv"
proof -
  let ?pts = "sampled_points rf data (length tickers) g"
  obtain ms where ms: "np_argmax (map sharpe_ratio ?pts) = Inr ms" "is_argmax (map sharpe_ratio ?pts) ms"
    using np_argmax_ok [of "map sharpe_ratio ?pts"] sampled_points_nonempty by auto
  obtain mv where mv: "np_argmin (map volatility ?pts) = Inr mv" "is_argmin (map volatility ?pts) mv"
    using np_argmin_ok [of "map volatility ?pts"] sampled_points_nonempty by auto
  have "ms < num_portfolios" using ms(2) by (simp add: is_argmax_def)
  then have "length (weights (?pts ! ms)) = columns data"
    using assms(4) by (simp add: length_sampled_weights)
  then have "calculate_diversification_ratio (pd_cov data) (weights (?pts ! ms))
      = Inr (ratio_value (pd_cov data) (weights (?pts ! ms)))"
    by (rule calculate_diversification_ratio_pd_cov)
  then have "optimize_body rf tickers iw (Inr data) g =
           (Inr (Dict (run_dict rf data tickers w0 g ms mv)),
            \<lambda>i. g (i + num_portfolios * length tickers))"
    using assms ms(1) mv(1)
    by (simp add: optimize_body_def evaluate_def sample_loop_num run_dict_def)
  with ms mv show ?thesis by blast
qed

lemma optimize_body_DictD:
  assumes "fst (optimize_body rf tickers iw dl g) = Inr (Dict r)"
  shows "\<exists>data w0 ms mv. dl = Inr data \<and> \<not> data_empty data
           \<and> default_weights tickers iw = Inr w0 \<and> length w0 = columns data
           \<and> columns data = length tickers
           \<and> r = run_dict rf data tickers w0 g ms mv
           \<and> np_argmax (map sharpe_ratio (sampled_points rf data (length tickers) g)) = Inr ms
           \<and> np_argmin (map volatility (sampled_points rf data (length tickers) g)) = Inr mv
           \<and> is_argmax (map sharpe_ratio (sampled_points rf data (length tickers) g)) ms
           \<and> is_argmin (map volatility (sampled_points rf data (length tickers) g)) mv"
proof -
  from assms obtain data where dl: "dl = Inr data"
    by (cases dl) (auto simp: optimize_body_def)
  from assms dl have ne: "\<not> data_empty data"
    by (auto simp: optimize_body_def split: if_splits)
  from assms dl ne obtain w0 where w0: "default_weights tickers iw = Inr w0"
    by (cases "default_weights tickers iw") (auto simp: optimize_body_def)
  from assms dl ne w0 have len: "length w0 = columns data"
    by (auto simp: optimize_body_def evaluate_def split: if_splits)
  from assms dl ne w0 len have cols: "columns data = length tickers"
    by (auto simp: optimize_body_def evaluate_def sample_loop_num split: if_splits)
  from optimize_body_ok [OF ne w0 len cols, of rf g] obtain ms mv where
    "optimize_body rf tickers iw (Inr data) g =
           (Inr (Dict (run_dict rf data tickers w0 g ms mv)),
            \<lambda>i. g (i + num_portfolios * length tickers))"
    "np_argmax (map sharpe_ratio (sampled_points rf data (length tickers) g)) = Inr ms"
    "np_argmin (map volatility (sampled_points rf data (length tickers) g)) = Inr mv"
    "is_argmax (map sharpe_ratio (sampled_points rf data (length tickers) g)) ms"
    "is_argmin (map volatility (sampled_points rf data (length tickers) g)) mv"
    by blast
  with assms dl ne w0 len cols show ?thesis by auto
qed

lemma optimize_portfolio_fst:
  "fst (optimize_portfolio rf tickers iw dl g) =
     (case fst (optimize_body rf tickers iw dl g) of Inl e \<Rightarrow> Inr Empty_dict | Inr r \<Rightarrow> Inr r)"
  by (cases "optimize_body rf tickers iw dl g") (auto simp: optimize_portfolio_def split: sum.splits)

lemma optimize_portfolio_snd:
  "snd (optimize_portfolio rf tickers iw dl g) = snd (optimize_body rf tickers iw dl g)"
  by (cases "optimize_body rf tickers iw dl g") (auto simp: optimize_portfolio_def split: sum.splits)

lemma optimize_portfolio_Dict_iff:
  "fst (optimize_portfolio rf tickers iw dl g) = Inr (Dict r) \<longleftrightarrow>
   fst (optimize_body rf tickers iw dl g) = Inr (Dict r)"
  by (simp add: optimize_portfolio_fst split: sum.splits)

lemma optimize_body_fst:
  "fst (optimize_body rf tickers iw dl g) =
     (case dl of
        Inl e \<Rightarrow> Inl e
      | Inr data \<Rightarrow>
          if data_empty data then Inr Empty_dict
          else
            (case default_weights tickers iw of
               Inl e \<Rightarrow> Inl e
             | Inr w0 \<Rightarrow>
                 (case evaluate rf data w0 of
                    Inl e \<Rightarrow> Inl e
                  | Inr current \<Rightarrow>
                      if columns data \<noteq> length tickers then Inl ValueError
                      else
                        (case np_argmax (map sharpe_ratio (sampled_points rf data (length tickers) g)) of
                           Inl e \<Rightarrow> Inl e
                         | Inr ms \<Rightarrow>
                             (case np_argmin (map volatility (sampled_points rf data (length tickers) g)) of
                                Inl e \<Rightarrow> Inl e
                              | Inr mv \<Rightarrow>
                                  (case calculate_diversification_ratio (pd_cov data)
                                          (weights (sampled_points rf data (length tickers) g ! ms)) of
                                     Inl e \<Rightarrow> Inl e
                                   | Inr dr \<Rightarrow>
                                       Inr (Dict (assemble rf data tickers current
                                                    (sampled_points rf data (length tickers) g)
                                                    ms mv dr))))))))"
  by (simp add: optimize_body_def sample_loop_num split: sum.splits)

section \<open>The diversification ratio\<close>

lemma np_sum_Num: "np_sum (map Num xs) = Num (sum_list xs)"
  by (induction xs) auto

lemma np_sum_Num_comp: "np_sum (map (\<lambda>x. Num (f x)) xs) = Num (sum_list (map f xs))"
  by (induction xs) auto

lemma np_dot_Num: "np_dot (map Num xs) (map Num ys) = Num (sum_list (map2 (*) xs ys))"
  unfolding np_dot_def by (induction xs ys rule: list_induct2') auto

lemma np_dot_mv_Num:
  "np_dot_mv (map (map Num) C) (map Num w) = map Num (map (\<lambda>row. sum_list (map2 (*) row w)) C)"
  by (simp add: np_dot_mv_def np_dot_Num)

lemma weighted_vol_Num:
  "0 \<le> quadratic_form C w \<Longrightarrow>
   weighted_vol (map (map Num) C) (map Num w) = Num (sqrt (quadratic_form C w))"
  unfolding weighted_vol_def np_dot_mv_Num np_dot_Num quadratic_form_def by simp

lemma np_diag_Num:
  "\<forall>row \<in> set C. length row = length C \<Longrightarrow>
   np_diag (map (map Num) C) = map (\<lambda>i. Num (C ! i ! i)) [0..<length C]"
  by (simp add: np_diag_def)

lemma average_vol_Num:
  assumes "\<forall>row \<in> set C. length row = length C" and "C \<noteq> []"
    and "\<forall>i < length C. 0 \<le> C ! i ! i"
  shows "average_vol (map (map Num) C) = Num (spec_average_individual_volatility C)"
proof -
  have "0 \<le> sum_list (map (\<lambda>i. C ! i ! i) [0..<length C])"
    using assms(3) by (intro sum_list_nonneg) auto
  then have "0 \<le> sum_list (map (\<lambda>i. C ! i ! i) [0..<length C]) / real (length C)"
    by simp
  then show ?thesis
    using assms(1,2)
    by (simp add: average_vol_def np_mean_def np_diag_Num np_sum_Num_comp
        spec_average_individual_volatility_def)
qed

lemma quadratic_form_Nil: "quadratic_form [] w = 0"
  by (simp add: quadratic_form_def)

lemma ratio_value_formula:
  assumes "\<forall>row \<in> set C. length row = length C"
    and "\<forall>i < length C. 0 \<le> C ! i ! i"
    and "0 \<le> quadratic_form C w"
  shows "ratio_value (map (map Num) C) (map Num w) = Num (spec_diversification_ratio C w)"
proof (cases "quadratic_form C w = 0")
  case True
  then show ?thesis
    by (simp add: ratio_value_def weighted_vol_Num
        spec_diversification_ratio_def spec_portfolio_volatility_def)
next
  case False
  with assms(3) have pos: "0 < quadratic_form C w" by simp
  have "C \<noteq> []" using False quadratic_form_Nil by auto
  with assms have "average_vol (map (map Num) C) = Num (spec_average_individual_volatility C)"
    by (intro average_vol_Num)
  with pos show ?thesis
    by (simp add: ratio_value_def weighted_vol_Num
        spec_diversification_ratio_def spec_portfolio_volatility_def)
qed

text \<open>
  Claim C6. For a covariance matrix \<open>C\<close> (square, with non-negative variances on its
  diagonal and a non-negative \<open>w\<^sup>T C w\<close>) and as many weights \<open>w\<close> as the matrix has
  rows, the diversification ratio that the code returns is the average individual
  volatility, the square root of the unweighted mean of the diagonal of \<open>C\<close>, over the
  portfolio volatility \<open>sqrt (w\<^sup>T C w)\<close>, and it is 1 when the portfolio volatility
  is 0. With another number of weights \<open>np.dot\<close> raises ValueError and there is no
  ratio.
\<close>

theorem diversification_ratio_formula:
  assumes "\<forall>row \<in> set C. length row = length C"
    and "\<forall>i < length C. 0 \<le> C ! i ! i"
    and "0 \<le> quadratic_form C w"
  shows "(length w = length C \<longrightarrow>
            calculate_diversification_ratio (map (map Num) C) (map Num w)
              = Inr (Num (spec_diversification_ratio C w)))
       \<and> (length w \<noteq> length C \<longrightarrow>
            calculate_diversification_ratio (map (map Num) C) (map Num w) = Inl ValueError)"
proof (intro conjI impI)
  assume len: "length w = length C"
  with assms(1) have "calculate_diversification_ratio (map (map Num) C) (map Num w)
      = Inr (ratio_value (map (map Num) C) (map Num w))"
    by (simp add: calculate_diversification_ratio_def)
  with ratio_value_formula [OF assms]
  show "calculate_diversification_ratio (map (map Num) C) (map Num w)
      = Inr (Num (spec_diversification_ratio C w))"
    by simp
next
  assume "length w \<noteq> length C"
  then show "calculate_diversification_ratio (map (map Num) C) (map Num w) = Inl ValueError"
    by (auto simp: calculate_diversification_ratio_def)
qed

text \<open>
  Two uncorrelated assets of variance 4 at equal weights: the average individual
  volatility is 2, the portfolio volatility \<open>sqrt 2\<close>, the ratio \<open>sqrt 2\<close>. With one
  weight for the two assets the call raises.
\<close>

theorem diversification_ratio_formula_witness:
  "calculate_diversification_ratio (map (map Num) [[4, 0], [0, 4]]) (map Num [1/2, 1/2])
     = Inr (Num (spec_diversification_ratio [[4, 0], [0, 4]] [1/2, 1/2]))
   \<and> spec_diversification_ratio [[4, 0], [0, 4]] [1/2, 1/2] = sqrt 2
   \<and> calculate_diversification_ratio (map (map Num) [[4, 0], [0, 4]]) (map Num [1])
     = Inl ValueError"
proof -
  have q: "quadratic_form [[4, 0], [0, 4]] [1/2, 1/2] = 2"
    by (simp add: quadratic_form_def)
  have q1: "quadratic_form [[4, 0], [0, 4]] [1] = 4"
    by (simp add: quadratic_form_def)
  have a: "spec_average_individual_volatility [[4, 0], [0, 4]] = 2"
    by (simp add: spec_average_individual_volatility_def upt_rec)
  have "sqrt 2 * sqrt 2 = 2" by simp
  then have r: "2 / sqrt 2 = sqrt 2"
    by (simp add: field_simps)
  have s: "spec_diversification_ratio [[4, 0], [0, 4]] [1/2, 1/2] = sqrt 2"
    by (simp add: spec_diversification_ratio_def spec_portfolio_volatility_def q a r)
  have sq: "\<forall>row \<in> set [[4, 0], [0, 4::real]]. length row = length [[4, 0], [0, 4::real]]"
    by simp
  have d: "\<forall>i < length [[4, 0], [0, 4::real]]. 0 \<le> [[4, 0], [0, 4::real]] ! i ! i"
    by (simp add: less_Suc_eq)
  have p: "0 \<le> quadratic_form [[4, 0], [0, 4]] [1/2, 1/2]" by (simp add: q)
  have p1: "0 \<le> quadratic_form [[4, 0], [0, 4]] [1]" by (simp add: q1)
  from diversification_ratio_formula [OF sq d p]
  have "calculate_diversification_ratio (map (map Num) [[4, 0], [0, 4]]) (map Num [1/2, 1/2])
     = Inr (Num (spec_diversification_ratio [[4, 0], [0, 4]] [1/2, 1/2]))"
    by simp
  moreover from diversification_ratio_formula [OF sq d p1]
  have "calculate_diversification_ratio (map (map Num) [[4, 0], [0, 4]]) (map Num [1])
     = Inl ValueError"
    by simp
  ultimately show ?thesis using s by simp
qed

text \<open>
  Claim C7. For a single asset of any positive variance \<open>v\<close> that carries the full
  weight, the diversification ratio is exactly 1.
\<close>

theorem single_asset_diversification_ratio:
  assumes "0 < v"
  shows "calculate_diversification_ratio [[Num v]] [Num 1] = Inr (Num 1)"
proof -
  have w: "weighted_vol [[Num v]] [Num 1] = Num (sqrt v)"
    using assms by (simp add: weighted_vol_def np_dot_def np_dot_mv_def)
  have a: "average_vol [[Num v]] = Num (sqrt v)"
    using assms by (simp add: average_vol_def np_diag_def np_mean_def)
  have "sqrt v \<noteq> 0" using assms by simp
  then have "sqrt v / sqrt v = 1" by simp
  with assms show ?thesis
    by (simp add: calculate_diversification_ratio_def ratio_value_def w a)
qed

theorem single_asset_diversification_ratio_witness:
  "(0::real) < 4 \<and> calculate_diversification_ratio [[Num 4]] [Num 1] = Inr (Num 1)"
  using single_asset_diversification_ratio [of 4] by simp

section \<open>The Sharpe ratio\<close>

lemma sharpe_eq_spec: "sharpe rf ret vol = spec_sharpe rf ret vol"
  by (cases vol; cases ret) (auto simp: sharpe_def spec_sharpe_def)

lemma point_of_sharpe:
  "sharpe_ratio (point_of rf data w)
     = spec_sharpe rf (expected_return (point_of rf data w)) (volatility (point_of rf data w))"
  by (simp add: point_of_def sharpe_eq_spec)

lemma optimize_portfolio_returns: "\<exists>d. fst (optimize_portfolio rf tickers iw dl g) = Inr d"
  by (simp add: optimize_portfolio_fst split: sum.splits)

text \<open>
  Claim C5. A call never raises, and in every result it returns the Sharpe ratio of
  the baseline and of each of the \<open>num_portfolios\<close> sampled points is the excess of
  its expected return over the risk-free rate divided by its volatility when the
  volatility is positive, and 0 when it is not.
\<close>

theorem sharpe_ratio_convention:
  "(\<exists>d. fst (optimize_portfolio rf tickers iw dl g) = Inr d)
   \<and> (fst (optimize_portfolio rf tickers iw dl g) = Inr (Dict r) \<longrightarrow>
        sharpe_ratio (current_portfolio r)
          = spec_sharpe rf (expected_return (current_portfolio r)) (volatility (current_portfolio r))
        \<and> length (frontier_sharpe_ratios (efficient_frontier r)) = num_portfolios
        \<and> length (frontier_returns (efficient_frontier r)) = num_portfolios
        \<and> length (frontier_volatilities (efficient_frontier r)) = num_portfolios
        \<and> (\<forall>i < num_portfolios.
              frontier_sharpe_ratios (efficient_frontier r) ! i
                = spec_sharpe rf (frontier_returns (efficient_frontier r) ! i)
                    (frontier_volatilities (efficient_frontier r) ! i)))"
proof (intro conjI impI)
  show "\<exists>d. fst (optimize_portfolio rf tickers iw dl g) = Inr d"
    by (rule optimize_portfolio_returns)
next
  assume "fst (optimize_portfolio rf tickers iw dl g) = Inr (Dict r)"
  then have "fst (optimize_body rf tickers iw dl g) = Inr (Dict r)"
    by (simp add: optimize_portfolio_Dict_iff)
  from optimize_body_DictD [OF this] obtain data w0 ms mv where
    r: "r = run_dict rf data tickers w0 g ms mv"
    by blast
  show "sharpe_ratio (current_portfolio r)
          = spec_sharpe rf (expected_return (current_portfolio r)) (volatility (current_portfolio r))"
    by (simp add: r run_dict_def assemble_def point_of_sharpe)
  show "length (frontier_sharpe_ratios (efficient_frontier r)) = num_portfolios"
    by (simp add: r run_dict_def assemble_def)
  show "length (frontier_returns (efficient_frontier r)) = num_portfolios"
    by (simp add: r run_dict_def assemble_def)
  show "length (frontier_volatilities (efficient_frontier r)) = num_portfolios"
    by (simp add: r run_dict_def assemble_def)
  show "\<forall>i < num_portfolios.
              frontier_sharpe_ratios (efficient_frontier r) ! i
                = spec_sharpe rf (frontier_returns (efficient_frontier r) ! i)
                    (frontier_volatilities (efficient_frontier r) ! i)"
    by (simp add: r run_dict_def assemble_def sampled_points_nth trial_def point_of_sharpe)
qed

text \<open>Facts for the concrete runs below.\<close>

lemma default_weights_two:
  "default_weights [a, b] None = Inr [Num (1/2), Num (1/2)]"
  by (simp add: default_weights_def)

lemma upt_2: "[0..<2] = [0, Suc 0]"
  by (simp add: upt_rec)

lemma pd_cov_flat_history: "pd_cov flat_history = [[Num 0, Num 0], [Num 0, Num 0]]"
  by (simp add: pd_cov_def flat_history_def upt_2 covariance_def column_def mean_def)

lemma pd_mean_flat_history: "pd_mean flat_history = [Num (1/100), Num (1/100)]"
  by (simp add: pd_mean_def flat_history_def upt_2 column_def mean_def)

lemma flat_history_baseline:
  "volatility (point_of rf flat_history [Num (1/2), Num (1/2)]) = Num 0"
  "sharpe_ratio (point_of rf flat_history [Num (1/2), Num (1/2)]) = Num 0"
  by (simp_all add: point_of_def portfolio_vol_def pd_cov_flat_history scale_matrix_def
      np_dot_mv_def np_dot_def sharpe_def)

text \<open>
  A run on two assets whose returns never move: the covariance is 0, the baseline has
  volatility 0, the run returns its dictionary and the Sharpe ratio of the baseline
  is 0.
\<close>

theorem sharpe_ratio_convention_witness:
  "\<exists>r. fst (optimize_portfolio (4/100) [''A'', ''B''] None (Inr flat_history) (constant_rng (1/2)))
          = Inr (Dict r)
       \<and> volatility (current_portfolio r) = Num 0
       \<and> sharpe_ratio (current_portfolio r) = Num 0
       \<and> sharpe_ratio (current_portfolio r)
          = spec_sharpe (4/100) (expected_return (current_portfolio r)) (volatility (current_portfolio r))
       \<and> (\<forall>i < num_portfolios.
              frontier_sharpe_ratios (efficient_frontier r) ! i
                = spec_sharpe (4/100) (frontier_returns (efficient_frontier r) ! i)
                    (frontier_volatilities (efficient_frontier r) ! i))"
proof -
  have "\<not> data_empty flat_history" "columns flat_history = length [''A'', ''B'']"
    "length [Num (1/2), Num (1/2)] = columns flat_history"
    by (simp_all add: flat_history_def)
  from optimize_body_ok [OF this(1) default_weights_two this(3) this(2), of "4/100" "constant_rng (1/2)"]
  obtain ms mv where
    body: "fst (optimize_body (4/100) [''A'', ''B''] None (Inr flat_history) (constant_rng (1/2)))
       = Inr (Dict (run_dict (4/100) flat_history [''A'', ''B''] [Num (1/2), Num (1/2)] (constant_rng (1/2)) ms mv))" (is "_ = Inr (Dict ?r)")
    by force
  then have run: "fst (optimize_portfolio (4/100) [''A'', ''B''] None (Inr flat_history) (constant_rng (1/2)))
       = Inr (Dict ?r)"
    by (simp add: optimize_portfolio_Dict_iff)
  have cur: "current_portfolio ?r = point_of (4/100) flat_history [Num (1/2), Num (1/2)]"
    by (simp add: run_dict_def assemble_def)
  from sharpe_ratio_convention [of "4/100" "[''A'', ''B'']" None "Inr flat_history" "constant_rng (1/2)" ?r] run
  have "sharpe_ratio (current_portfolio ?r)
          = spec_sharpe (4/100) (expected_return (current_portfolio ?r)) (volatility (current_portfolio ?r))
       \<and> (\<forall>i < num_portfolios.
              frontier_sharpe_ratios (efficient_frontier ?r) ! i
                = spec_sharpe (4/100) (frontier_returns (efficient_frontier ?r) ! i)
                    (frontier_volatilities (efficient_frontier ?r) ! i))"
    by blast
  with run cur flat_history_baseline [of "4/100"] show ?thesis
    by (intro exI [of _ ?r]) simp
qed

section \<open>The arg-extrema of a run\<close>

lemma is_argmax_not_beaten:
  "is_argmax ys r \<Longrightarrow> j < length ys \<Longrightarrow> \<not> np_gt (ys ! j) (ys ! r)"
  by (auto simp: is_argmax_def dest: np_le_not_gt)

lemma is_argmin_not_beaten:
  "is_argmin ys r \<Longrightarrow> j < length ys \<Longrightarrow> \<not> np_gt (ys ! r) (ys ! j)"
  by (auto simp: is_argmin_def dest: np_le_not_gt)

lemma is_number_iff: "is_number x \<longleftrightarrow> x \<noteq> NaN"
  by (cases x) auto

lemma is_argmax_numbers:
  "is_argmax ys r \<Longrightarrow> \<forall>x \<in> set ys. is_number x \<Longrightarrow> j < length ys \<Longrightarrow> np_le (ys ! j) (ys ! r)"
  by (auto simp: is_argmax_def is_number_iff)

lemma is_argmin_numbers:
  "is_argmin ys r \<Longrightarrow> \<forall>x \<in> set ys. is_number x \<Longrightarrow> j < length ys \<Longrightarrow> np_le (ys ! r) (ys ! j)"
  by (auto simp: is_argmin_def is_number_iff)

text \<open>
  What the two scans give in every run: no sampled point has a strictly larger Sharpe
  ratio than the max-Sharpe point or a strictly smaller volatility than the
  min-volatility point, and when the sampled values are all numbers the two points are
  the extrema in the sense of \<open><=\<close>.
\<close>

lemma arg_extrema_of_a_run:
  assumes "fst (optimize_portfolio rf tickers iw dl g) = Inr (Dict r)"
  shows "(\<forall>i < num_portfolios.
            \<not> np_gt (frontier_sharpe_ratios (efficient_frontier r) ! i) (sharpe_ratio (max_sharpe r)))
       \<and> (\<forall>i < num_portfolios.
            \<not> np_gt (volatility (min_volatility r)) (frontier_volatilities (efficient_frontier r) ! i))
       \<and> ((\<forall>x \<in> set (frontier_sharpe_ratios (efficient_frontier r)). is_number x) \<longrightarrow>
            (\<forall>i < num_portfolios.
               np_le (frontier_sharpe_ratios (efficient_frontier r) ! i) (sharpe_ratio (max_sharpe r))))
       \<and> ((\<forall>x \<in> set (frontier_volatilities (efficient_frontier r)). is_number x) \<longrightarrow>
            (\<forall>i < num_portfolios.
               np_le (volatility (min_volatility r)) (frontier_volatilities (efficient_frontier r) ! i)))"
proof -
  from assms have "fst (optimize_body rf tickers iw dl g) = Inr (Dict r)"
    by (simp add: optimize_portfolio_Dict_iff)
  from optimize_body_DictD [OF this] obtain data w0 ms mv where
    r: "r = run_dict rf data tickers w0 g ms mv"
    and ms: "is_argmax (map sharpe_ratio (sampled_points rf data (length tickers) g)) ms"
    and mv: "is_argmin (map volatility (sampled_points rf data (length tickers) g)) mv"
    by blast
  let ?pts = "sampled_points rf data (length tickers) g"
  have msl: "ms < num_portfolios" and mvl: "mv < num_portfolios"
    using ms mv by (simp_all add: is_argmax_def is_argmin_def)
  have s: "frontier_sharpe_ratios (efficient_frontier r) = map sharpe_ratio ?pts"
    and v: "frontier_volatilities (efficient_frontier r) = map volatility ?pts"
    by (simp_all add: r run_dict_def assemble_def)
  have sm: "sharpe_ratio (max_sharpe r) = map sharpe_ratio ?pts ! ms"
    using msl by (simp add: r run_dict_def assemble_def)
  have vm: "volatility (min_volatility r) = map volatility ?pts ! mv"
    using mvl by (simp add: r run_dict_def assemble_def)
  show ?thesis
    unfolding s v sm vm
    using is_argmax_not_beaten [OF ms] is_argmin_not_beaten [OF mv]
      is_argmax_numbers [OF ms] is_argmin_numbers [OF mv]
    by simp
qed

lemma pd_cov_short_history: "pd_cov short_history = [[NaN, NaN], [NaN, NaN]]"
  by (simp add: pd_cov_def short_history_def upt_2 covariance_def column_def)

lemma portfolio_vol_NaN: "w \<noteq> [] \<Longrightarrow> portfolio_vol [[NaN, NaN], [NaN, NaN]] w = NaN"
  by (cases w) (simp_all add: portfolio_vol_def scale_matrix_def np_dot_mv_def np_dot_def)

lemma trial_short_history: "0 < n \<Longrightarrow> volatility (trial rf short_history n g i) = NaN"
proof -
  assume "0 < n"
  then have "length (normalize_weights (draws g n i)) \<noteq> 0" by simp
  then have "normalize_weights (draws g n i) \<noteq> []" by (simp only: length_0_conv not_False_eq_True)
  then show ?thesis
    by (simp add: trial_def point_of_def pd_cov_short_history portfolio_vol_NaN)
qed

lemma portfolio_ret_is_num: "is_number (portfolio_ret m w)"
  by (simp add: portfolio_ret_def pd_sum_def)

lemma sharpe_is_num: "is_number (sharpe_ratio (point_of rf data w))"
proof -
  obtain x where x: "portfolio_ret (pd_mean data) w = Num x"
    by (simp add: portfolio_ret_def pd_sum_def)
  show ?thesis
    by (cases "portfolio_vol (pd_cov data) w") (simp_all add: point_of_def sharpe_def x)
qed

text \<open>
  The Sharpe ratio of a sampled point is never NaN: the expected return is a sum that
  skips NaN, hence a number, and the ratio is taken over a positive volatility only.
  So the max-Sharpe half of claim C1 holds in every run; it is the min-volatility half
  that NaN volatilities break.
\<close>

lemma max_sharpe_is_maximal:
  assumes "fst (optimize_portfolio rf tickers iw dl g) = Inr (Dict r)"
  shows "\<forall>i < num_portfolios.
           np_le (frontier_sharpe_ratios (efficient_frontier r) ! i) (sharpe_ratio (max_sharpe r))"
proof -
  from assms have "fst (optimize_body rf tickers iw dl g) = Inr (Dict r)"
    by (simp add: optimize_portfolio_Dict_iff)
  from optimize_body_DictD [OF this] obtain data w0 ms mv where
    r: "r = run_dict rf data tickers w0 g ms mv"
    and cols: "columns data = length tickers"
    by blast
  have "\<forall>x \<in> set (frontier_sharpe_ratios (efficient_frontier r)). is_number x"
    by (auto simp: r run_dict_def assemble_def sampled_points_def trial_def sharpe_is_num)
  with arg_extrema_of_a_run [OF assms] show ?thesis by blast
qed

text \<open>
  Claim C1. The max-Sharpe and the min-volatility point are meant to be the extrema
  of the sample set: \<open>min_volatility_point.volatility <= p.volatility\<close> for every
  sampled \<open>p\<close>. On a price table of two days, that is one row of returns, the
  covariance is NaN, every sampled volatility is NaN, \<open>np.argmin\<close> returns the first
  of them, and the run returns a min-volatility point whose volatility is NaN and is
  \<open><=\<close> no sampled volatility, the first one included.
\<close>

theorem min_volatility_on_short_history:
  "\<exists>r. fst (optimize_portfolio (4/100) [''A'', ''B''] None (Inr short_history) (constant_rng (1/2)))
          = Inr (Dict r)
       \<and> frontier_volatilities (efficient_frontier r) = replicate num_portfolios NaN
       \<and> volatility (min_volatility r) = NaN
       \<and> \<not> np_le (volatility (min_volatility r)) (frontier_volatilities (efficient_frontier r) ! 0)"
proof -
  let ?pts = "sampled_points (4/100) short_history (length [''A'', ''B'']) (constant_rng (1/2))"
  have "\<not> data_empty short_history" "columns short_history = length [''A'', ''B'']"
    "length [Num (1/2), Num (1/2)] = columns short_history"
    by (simp_all add: short_history_def)
  from optimize_body_ok [OF this(1) default_weights_two this(3) this(2), of "4/100" "constant_rng (1/2)"]
  obtain ms mv where
    body: "fst (optimize_body (4/100) [''A'', ''B''] None (Inr short_history) (constant_rng (1/2)))
       = Inr (Dict (run_dict (4/100) short_history [''A'', ''B''] [Num (1/2), Num (1/2)] (constant_rng (1/2)) ms mv))"
      (is "_ = Inr (Dict ?r)")
    and mv: "is_argmin (map volatility ?pts) mv"
    by force
  have run: "fst (optimize_portfolio (4/100) [''A'', ''B''] None (Inr short_history) (constant_rng (1/2)))
       = Inr (Dict ?r)"
    using body by (simp add: optimize_portfolio_Dict_iff)
  have "mv < num_portfolios" using mv by (simp add: is_argmin_def)
  then have m: "volatility (min_volatility ?r) = NaN"
    by (simp add: run_dict_def assemble_def sampled_points_nth trial_short_history)
  have "map volatility ?pts = replicate num_portfolios NaN"
    by (rule nth_equalityI) (simp_all add: sampled_points_nth trial_short_history)
  then have v: "frontier_volatilities (efficient_frontier ?r) = replicate num_portfolios NaN"
    by (simp add: run_dict_def assemble_def)
  from run v m show ?thesis
    by (intro exI [of _ ?r]) simp
qed

section \<open>The sampled weights\<close>

lemma member_le_sum_list_real:
  fixes xs :: "real list"
  shows "\<forall>x \<in> set xs. 0 \<le> x \<Longrightarrow> d \<in> set xs \<Longrightarrow> d \<le> sum_list xs"
proof (induction xs)
  case Nil
  then show ?case by simp
next
  case (Cons x xs)
  then have "0 \<le> sum_list xs" by (intro sum_list_nonneg) simp
  with Cons show ?case by auto
qed

lemma normalize_weights_numbers:
  "sum_list ds \<noteq> 0 \<Longrightarrow> normalize_weights ds = map (\<lambda>d. Num (d / sum_list ds)) ds"
  by (simp add: normalize_weights_def np_sum_Num)

text \<open>
  Draws that are not negative and not all zero are normalised to weights in \<open>[0, 1]\<close>
  that sum to 1.
\<close>

lemma normalize_weights_simplex:
  assumes "\<forall>d \<in> set ds. 0 \<le> d" and "0 < sum_list ds"
  shows "normalize_weights ds = map (\<lambda>d. Num (d / sum_list ds)) ds
       \<and> (\<forall>d \<in> set ds. 0 \<le> d / sum_list ds \<and> d / sum_list ds \<le> 1)
       \<and> sum_list (map (\<lambda>d. d / sum_list ds) ds) = 1"
proof (intro conjI ballI)
  show "normalize_weights ds = map (\<lambda>d. Num (d / sum_list ds)) ds"
    using assms(2) by (simp add: normalize_weights_numbers)
next
  fix d assume d: "d \<in> set ds"
  with assms show "0 \<le> d / sum_list ds" by simp
  from d assms(1) have "d \<le> sum_list ds" by (intro member_le_sum_list_real) auto
  with assms(2) show "d / sum_list ds \<le> 1" by simp
next
  have "sum_list (map (\<lambda>d. d / sum_list ds) ds) = sum_list ds / sum_list ds"
    by (simp add: divide_inverse sum_list_mult_const)
  with assms(2) show "sum_list (map (\<lambda>d. d / sum_list ds) ds) = 1" by simp
qed

lemma draws_constant_rng: "draws (constant_rng c) (Suc (Suc 0)) i = [c, c]"
  by (simp add: draws_def constant_rng_def)

text \<open>
  Claim C2. Every trial is meant to produce weights in \<open>[0, 1]\<close> that sum to 1.
  \<open>np.random.random\<close> returns numbers of \<open>[0, 1)\<close>, 0 included; when all draws of a
  trial are 0 their sum is 0, \<^verbatim>\<open>weights /= np.sum(weights)\<close> is \<open>0 / 0\<close> on every
  component, and the weight vector is all NaN. A run whose generator returns 0
  throughout shows it: the run returns its dictionary, and the weights of its two
  distinguished points are NaN.
\<close>

theorem weights_of_all_zero_draws:
  "normalize_weights [0, 0] = [NaN, NaN]
   \<and> (\<exists>r. fst (optimize_portfolio (4/100) [''A'', ''B''] None (Inr flat_history) (constant_rng 0))
             = Inr (Dict r)
          \<and> weights (max_sharpe r) = [NaN, NaN]
          \<and> weights (min_volatility r) = [NaN, NaN])"
proof
  show z: "normalize_weights [0, 0] = [NaN, NaN]"
    by (simp add: normalize_weights_def)
  have "\<not> data_empty flat_history" "columns flat_history = length [''A'', ''B'']"
    "length [Num (1/2), Num (1/2)] = columns flat_history"
    by (simp_all add: flat_history_def)
  from optimize_body_ok [OF this(1) default_weights_two this(3) this(2), of "4/100" "constant_rng 0"]
  obtain ms mv where
    body: "fst (optimize_body (4/100) [''A'', ''B''] None (Inr flat_history) (constant_rng 0))
       = Inr (Dict (run_dict (4/100) flat_history [''A'', ''B''] [Num (1/2), Num (1/2)] (constant_rng 0) ms mv))" (is "_ = Inr (Dict ?r)")
    and ms: "is_argmax (map sharpe_ratio
               (sampled_points (4/100) flat_history (length [''A'', ''B'']) (constant_rng 0))) ms"
    and mv: "is_argmin (map volatility
               (sampled_points (4/100) flat_history (length [''A'', ''B'']) (constant_rng 0))) mv"
    by force
  have run: "fst (optimize_portfolio (4/100) [''A'', ''B''] None (Inr flat_history) (constant_rng 0))
       = Inr (Dict ?r)"
    using body by (simp add: optimize_portfolio_Dict_iff)
  have "ms < num_portfolios" "mv < num_portfolios"
    using ms mv by (simp_all add: is_argmax_def is_argmin_def)
  then have "weights (max_sharpe ?r) = [NaN, NaN]" "weights (min_volatility ?r) = [NaN, NaN]"
    by (simp_all add: run_dict_def assemble_def sampled_points_nth trial_def point_of_def draws_constant_rng z)
  with run show "\<exists>r. fst (optimize_portfolio (4/100) [''A'', ''B''] None (Inr flat_history) (constant_rng 0))
             = Inr (Dict r)
          \<and> weights (max_sharpe r) = [NaN, NaN]
          \<and> weights (min_volatility r) = [NaN, NaN]"
    by (intro exI [of _ ?r]) simp
qed

section \<open>The diversification ratio of a run\<close>




section \<open>Failures\<close>

lemma calculate_portfolio_metrics_returns:
  "\<exists>d. calculate_portfolio_metrics rf portfolio dl = Inr d"
  by (simp add: calculate_portfolio_metrics_def split: sum.splits)

text \<open>
  Claim C3, as the code has it. Neither operation ever raises to its caller. An
  exception raised inside \<open>optimize_portfolio\<close> or \<open>calculate_portfolio_metrics\<close> is
  caught and the caller receives the empty dictionary; an empty download and an empty
  portfolio return the empty dictionary directly.
\<close>

theorem failures_become_the_empty_dict:
  "(\<exists>d. fst (optimize_portfolio rf tickers iw dl g) = Inr d)
   \<and> (\<forall>e. fst (optimize_body rf tickers iw dl g) = Inl e \<longrightarrow>
          fst (optimize_portfolio rf tickers iw dl g) = Inr Empty_dict)
   \<and> (\<forall>data. dl = Inr data \<and> data_empty data \<longrightarrow>
          fst (optimize_portfolio rf tickers iw dl g) = Inr Empty_dict)
   \<and> (\<exists>d. calculate_portfolio_metrics rf portfolio dl = Inr d)
   \<and> (\<forall>e. metrics_body rf portfolio dl = Inl e \<longrightarrow>
          calculate_portfolio_metrics rf portfolio dl = Inr Empty_dict)
   \<and> (portfolio = [] \<or> (\<exists>data. dl = Inr data \<and> data_empty data) \<longrightarrow>
          calculate_portfolio_metrics rf portfolio dl = Inr Empty_dict)"
proof (intro conjI allI impI)
  show "\<exists>d. fst (optimize_portfolio rf tickers iw dl g) = Inr d"
    by (rule optimize_portfolio_returns)
  show "\<exists>d. calculate_portfolio_metrics rf portfolio dl = Inr d"
    by (rule calculate_portfolio_metrics_returns)
next
  fix e assume "fst (optimize_body rf tickers iw dl g) = Inl e"
  then show "fst (optimize_portfolio rf tickers iw dl g) = Inr Empty_dict"
    by (simp add: optimize_portfolio_fst)
next
  fix data assume "dl = Inr data \<and> data_empty data"
  then show "fst (optimize_portfolio rf tickers iw dl g) = Inr Empty_dict"
    by (simp add: optimize_portfolio_fst optimize_body_fst)
next
  fix e assume "metrics_body rf portfolio dl = Inl e"
  then show "calculate_portfolio_metrics rf portfolio dl = Inr Empty_dict"
    by (simp add: calculate_portfolio_metrics_def)
next
  assume "portfolio = [] \<or> (\<exists>data. dl = Inr data \<and> data_empty data)"
  then show "calculate_portfolio_metrics rf portfolio dl = Inr Empty_dict"
    by (auto simp: calculate_portfolio_metrics_def metrics_body_def)
qed

lemma mismatched_weights_body:
  "fst (optimize_body (4/100) [''A'', ''B''] (Some [Num 1]) (Inr flat_history) (constant_rng (1/2)))
     = Inl ValueError"
  by (simp add: optimize_body_fst flat_history_def default_weights_def evaluate_def)

text \<open>
  Baseline weights of the wrong length make \<open>np.dot\<close> raise ValueError inside
  \<open>optimize_portfolio\<close>; the caller receives \<open>{}\<close>. An empty portfolio gives \<open>{}\<close>.
\<close>

theorem failures_become_the_empty_dict_witness:
  "fst (optimize_body (4/100) [''A'', ''B''] (Some [Num 1]) (Inr flat_history) (constant_rng (1/2)))
     = Inl ValueError
   \<and> fst (optimize_portfolio (4/100) [''A'', ''B''] (Some [Num 1]) (Inr flat_history)
           (constant_rng (1/2))) = Inr Empty_dict
   \<and> calculate_portfolio_metrics (4/100) [] (Inr flat_history) = Inr Empty_dict"
  using failures_become_the_empty_dict
    [of "4/100" "[''A'', ''B'']" "Some [Num 1]" "Inr flat_history" "constant_rng (1/2)" "[]"]
    mismatched_weights_body
  by simp

text \<open>
  Claim C3 as stated, that every failure reaches the caller as a typed error, fails at
  that input: the ValueError raised inside is not what the caller receives.
\<close>

theorem typed_error_counterexample:
  "\<not> (\<forall>e. fst (optimize_body (4/100) [''A'', ''B''] (Some [Num 1]) (Inr flat_history)
                 (constant_rng (1/2))) = Inl e \<longrightarrow>
           fst (optimize_portfolio (4/100) [''A'', ''B''] (Some [Num 1]) (Inr flat_history)
                 (constant_rng (1/2))) = Inl e)"
proof
  assume "\<forall>e. fst (optimize_body (4/100) [''A'', ''B''] (Some [Num 1]) (Inr flat_history)
                 (constant_rng (1/2))) = Inl e \<longrightarrow>
           fst (optimize_portfolio (4/100) [''A'', ''B''] (Some [Num 1]) (Inr flat_history)
                 (constant_rng (1/2))) = Inl e"
  with mismatched_weights_body
  have "fst (optimize_portfolio (4/100) [''A'', ''B''] (Some [Num 1]) (Inr flat_history)
                 (constant_rng (1/2))) = Inl ValueError"
    by blast
  then show False
    unfolding optimize_portfolio_fst mismatched_weights_body by simp
qed

section \<open>The Sortino ratio\<close>

lemma sum_list_squares_pos:
  fixes xs :: "real list"
  assumes "xs \<noteq> []" and "\<forall>x \<in> set xs. x < 0"
  shows "0 < sum_list (map (\<lambda>x. x\<^sup>2) xs)"
  using assms
proof (induction xs)
  case Nil
  then show ?case by simp
next
  case (Cons x xs)
  have "0 \<le> sum_list (map (\<lambda>x. x\<^sup>2) xs)" by (intro sum_list_nonneg) auto
  moreover have "0 < x\<^sup>2" using Cons.prems by simp
  ultimately have "0 < x\<^sup>2 + sum_list (map (\<lambda>x. x\<^sup>2) xs)" by linarith
  then show ?case by simp
qed

lemma root_mean_square_pos:
  assumes "xs \<noteq> []" and "\<forall>x \<in> set xs. x < 0"
  shows "0 < root_mean_square xs"
  using sum_list_squares_pos [OF assms] assms(1) by (simp add: root_mean_square_def)

lemma spec_downside_deviation_pos:
  "downside_returns pr \<noteq> [] \<Longrightarrow> 0 < spec_downside_deviation pr"
  unfolding spec_downside_deviation_def downside_returns_def
  by (intro mult_pos_pos root_mean_square_pos) auto

lemma downside_deviation_eq:
  "downside_returns pr \<noteq> [] \<Longrightarrow> downside_deviation pr = Num (spec_downside_deviation pr)"
proof -
  assume ne: "downside_returns pr \<noteq> []"
  let ?d = "downside_returns pr"
  have "0 \<le> sum_list (map (\<lambda>x. x\<^sup>2) ?d)" by (intro sum_list_nonneg) auto
  then have "0 \<le> sum_list (map (\<lambda>x. x\<^sup>2) ?d) / real (length ?d)" by simp
  then show ?thesis
    using ne
    by (simp add: downside_deviation_def np_mean_def np_sum_Num_comp spec_downside_deviation_def
        root_mean_square_def downside_returns_def)
qed

lemma downside_deviation_none:
  "downside_returns pr = [] \<Longrightarrow> downside_deviation pr = Num 0"
  by (simp add: downside_deviation_def)

lemma annual_return_eq:
  "pr \<noteq> [] \<Longrightarrow> annual_return pr = Num (total_return pr * 252 / real (length pr))"
  by (simp add: annual_return_def)

lemma sortino_ratio_eq: "sortino_ratio rf pr = Num (spec_sortino rf pr)"
proof (cases "downside_returns pr = []")
  case True
  then show ?thesis
    by (simp add: sortino_ratio_def downside_deviation_none spec_sortino_def downside_returns_def)
next
  case False
  then have "pr \<noteq> []" by (auto simp: downside_returns_def)
  with False spec_downside_deviation_pos [OF False] show ?thesis
    by (simp add: sortino_ratio_def downside_deviation_eq annual_return_eq spec_sortino_def
        downside_returns_def)
qed

lemma no_negative_returns: "\<forall>r \<in> set pr. 0 \<le> r \<Longrightarrow> downside_returns pr = []"
  by (auto simp: downside_returns_def filter_empty_conv not_less)

lemma calculate_portfolio_metrics_DictD:
  assumes "calculate_portfolio_metrics rf portfolio dl = Inr (Dict m)"
  shows "\<exists>data. dl = Inr data \<and> portfolio \<noteq> [] \<and> \<not> data_empty data
           \<and> length portfolio = columns data
           \<and> m = metrics_of rf (portfolio_returns (returns data) (map snd portfolio))"
  using assms
  by (cases dl) (auto simp: calculate_portfolio_metrics_def metrics_body_def split: if_splits)

text \<open>
  Claim C8. \<open>calculate_portfolio_metrics\<close> never raises, and in every dictionary of
  metrics it returns the Sortino ratio is the one of the specification: 0 when no
  portfolio return is negative, and otherwise the annualised return in excess of the
  risk-free rate over the downside deviation, which is the root-mean-square of the
  negative portfolio returns alone times \<open>sqrt 252\<close> and is positive.
\<close>

theorem sortino_ratio_convention:
  "(\<exists>d. calculate_portfolio_metrics rf portfolio dl = Inr d)
   \<and> (calculate_portfolio_metrics rf portfolio dl = Inr (Dict m) \<longrightarrow>
        (\<exists>data pr. dl = Inr data
           \<and> pr = portfolio_returns (returns data) (map snd portfolio)
           \<and> metrics_sortino_ratio m = Num (spec_sortino rf pr)
           \<and> ((\<forall>r \<in> set pr. 0 \<le> r) \<longrightarrow> metrics_sortino_ratio m = Num 0)
           \<and> ((\<exists>r \<in> set pr. r < 0) \<longrightarrow>
                 downside_deviation pr = Num (spec_downside_deviation pr)
                 \<and> 0 < spec_downside_deviation pr
                 \<and> metrics_sortino_ratio m
                     = Num ((total_return pr * 252 / real (length pr) - rf)
                            / spec_downside_deviation pr))))"
proof (intro conjI impI)
  show "\<exists>d. calculate_portfolio_metrics rf portfolio dl = Inr d"
    by (rule calculate_portfolio_metrics_returns)
next
  assume "calculate_portfolio_metrics rf portfolio dl = Inr (Dict m)"
  from calculate_portfolio_metrics_DictD [OF this] obtain data where
    dl: "dl = Inr data"
    and m: "m = metrics_of rf (portfolio_returns (returns data) (map snd portfolio))"
    by blast
  let ?pr = "portfolio_returns (returns data) (map snd portfolio)"
  have s: "metrics_sortino_ratio m = Num (spec_sortino rf ?pr)"
    by (simp add: m metrics_of_def sortino_ratio_eq)
  have z: "metrics_sortino_ratio m = Num 0" if "\<forall>r \<in> set ?pr. 0 \<le> r"
    using no_negative_returns [OF that]
    by (simp add: s spec_sortino_def downside_returns_def)
  have n: "downside_deviation ?pr = Num (spec_downside_deviation ?pr)
        \<and> 0 < spec_downside_deviation ?pr
        \<and> metrics_sortino_ratio m
            = Num ((total_return ?pr * 252 / real (length ?pr) - rf) / spec_downside_deviation ?pr)"
    if "\<exists>r \<in> set ?pr. r < 0"
  proof -
    from that have ne: "downside_returns ?pr \<noteq> []"
      by (auto simp: downside_returns_def filter_empty_conv)
    then have "filter (\<lambda>r. r < 0) ?pr \<noteq> []" by (simp add: downside_returns_def)
    then have "metrics_sortino_ratio m
            = Num ((total_return ?pr * 252 / real (length ?pr) - rf) / spec_downside_deviation ?pr)"
      by (simp add: s spec_sortino_def)
    with downside_deviation_eq [OF ne] spec_downside_deviation_pos [OF ne] show ?thesis by simp
  qed
  from dl s z n show "\<exists>data pr. dl = Inr data
           \<and> pr = portfolio_returns (returns data) (map snd portfolio)
           \<and> metrics_sortino_ratio m = Num (spec_sortino rf pr)
           \<and> ((\<forall>r \<in> set pr. 0 \<le> r) \<longrightarrow> metrics_sortino_ratio m = Num 0)
           \<and> ((\<exists>r \<in> set pr. r < 0) \<longrightarrow>
                 downside_deviation pr = Num (spec_downside_deviation pr)
                 \<and> 0 < spec_downside_deviation pr
                 \<and> metrics_sortino_ratio m
                     = Num ((total_return pr * 252 / real (length pr) - rf)
                            / spec_downside_deviation pr))"
    by blast
qed

lemma metrics_on_flat_history:
  "calculate_portfolio_metrics rf [(''A'', 1/2), (''B'', 1/2)] (Inr flat_history)
     = Inr (Dict (metrics_of rf [1/100, 1/100]))"
  by (simp add: calculate_portfolio_metrics_def metrics_body_def flat_history_def
      portfolio_returns_def)

lemma metrics_on_mixed_history:
  "calculate_portfolio_metrics rf [(''A'', 1/2), (''B'', 1/2)] (Inr mixed_history)
     = Inr (Dict (metrics_of rf [3/200, - 1/50, 1/100]))"
  by (simp add: calculate_portfolio_metrics_def metrics_body_def mixed_history_def
      portfolio_returns_def)

text \<open>
  Returns that are all positive give the Sortino ratio 0; returns with a losing
  period give a positive downside deviation.
\<close>

theorem sortino_ratio_convention_witness:
  "calculate_portfolio_metrics (4/100) [(''A'', 1/2), (''B'', 1/2)] (Inr flat_history)
     = Inr (Dict (metrics_of (4/100) [1/100, 1/100]))
   \<and> metrics_sortino_ratio (metrics_of (4/100) [1/100, 1/100]) = Num 0
   \<and> calculate_portfolio_metrics (4/100) [(''A'', 1/2), (''B'', 1/2)] (Inr mixed_history)
     = Inr (Dict (metrics_of (4/100) [3/200, - 1/50, 1/100]))
   \<and> downside_deviation [3/200, - 1/50, 1/100]
     = Num (spec_downside_deviation [3/200, - 1/50, 1/100])
   \<and> 0 < spec_downside_deviation [3/200, - 1/50, 1/100]"
proof -
  let ?m = "metrics_of (4/100) [1/100, 1/100]"
  let ?m2 = "metrics_of (4/100) [3/200, - 1/50, 1/100]"
  have run: "calculate_portfolio_metrics (4/100) [(''A'', 1/2), (''B'', 1/2)] (Inr flat_history)
     = Inr (Dict ?m)"
    by (rule metrics_on_flat_history)
  have pr: "portfolio_returns (returns flat_history) (map snd [(''A'', 1/2), (''B'', 1/2::real)])
     = [1/100, 1/100]"
    by (simp add: flat_history_def portfolio_returns_def)
  from sortino_ratio_convention
    [of "4/100" "[(''A'', 1/2), (''B'', 1/2)]" "Inr flat_history" ?m] run
  obtain data pr' where
    "Inr flat_history = (Inr data :: exn + price_data)"
    "pr' = portfolio_returns (returns data) (map snd [(''A'', 1/2), (''B'', 1/2::real)])"
    "(\<forall>r \<in> set pr'. 0 \<le> r) \<longrightarrow> metrics_sortino_ratio ?m = Num 0"
    by blast
  with pr have zero: "metrics_sortino_ratio ?m = Num 0" by simp
  have run2: "calculate_portfolio_metrics (4/100) [(''A'', 1/2), (''B'', 1/2)] (Inr mixed_history)
     = Inr (Dict ?m2)"
    by (rule metrics_on_mixed_history)
  have pr2: "portfolio_returns (returns mixed_history) (map snd [(''A'', 1/2), (''B'', 1/2::real)])
     = [3/200, - 1/50, 1/100]"
    by (simp add: mixed_history_def portfolio_returns_def)
  from sortino_ratio_convention
    [of "4/100" "[(''A'', 1/2), (''B'', 1/2)]" "Inr mixed_history" ?m2] run2
  obtain data2 pr2' where
    "Inr mixed_history = (Inr data2 :: exn + price_data)"
    "pr2' = portfolio_returns (returns data2) (map snd [(''A'', 1/2), (''B'', 1/2::real)])"
    "(\<exists>r \<in> set pr2'. r < 0) \<longrightarrow>
       downside_deviation pr2' = Num (spec_downside_deviation pr2') \<and> 0 < spec_downside_deviation pr2'"
    by blast
  with pr2 have "downside_deviation [3/200, - 1/50, 1/100]
       = Num (spec_downside_deviation [3/200, - 1/50, 1/100])
     \<and> 0 < spec_downside_deviation [3/200, - 1/50, 1/100]"
    by simp
  with run zero run2 show ?thesis by simp
qed

section \<open>The weights of calculate\_portfolio\_metrics\<close>

text \<open>
  Claim C10. \<open>calculate_portfolio_metrics\<close> does not validate the weights. An
  empty portfolio returns \<open>{}\<close>. For a portfolio that is not empty and a download
  that holds a column for each of its tickers, the result is the dictionary of the
  metrics of \<open>returns.dot(weights)\<close> for the weights as given, whatever their signs and
  their sum. The result is \<open>{}\<close> only for an empty portfolio or for a download that
  failed, is empty or has another number of columns: never because of the values of
  the weights.
\<close>

theorem weights_are_not_validated:
  "calculate_portfolio_metrics rf [] dl = Inr Empty_dict
   \<and> (portfolio \<noteq> [] \<and> dl = Inr data \<and> \<not> data_empty data \<and> length portfolio = columns data \<longrightarrow>
        calculate_portfolio_metrics rf portfolio dl
          = Inr (Dict (metrics_of rf (portfolio_returns (returns data) (map snd portfolio)))))
   \<and> (calculate_portfolio_metrics rf portfolio dl = Inr Empty_dict \<longleftrightarrow>
        portfolio = []
        \<or> (case dl of Inl e \<Rightarrow> True
            | Inr data \<Rightarrow> data_empty data \<or> length portfolio \<noteq> columns data))"
proof (intro conjI impI)
  show "calculate_portfolio_metrics rf [] dl = Inr Empty_dict"
    by (simp add: calculate_portfolio_metrics_def metrics_body_def)
next
  assume "portfolio \<noteq> [] \<and> dl = Inr data \<and> \<not> data_empty data \<and> length portfolio = columns data"
  then show "calculate_portfolio_metrics rf portfolio dl
          = Inr (Dict (metrics_of rf (portfolio_returns (returns data) (map snd portfolio))))"
    by (simp add: calculate_portfolio_metrics_def metrics_body_def)
next
  show "calculate_portfolio_metrics rf portfolio dl = Inr Empty_dict \<longleftrightarrow>
        portfolio = []
        \<or> (case dl of Inl e \<Rightarrow> True
            | Inr data \<Rightarrow> data_empty data \<or> length portfolio \<noteq> columns data)"
  proof (cases dl)
    case (Inl e)
    then show ?thesis
      by (simp add: calculate_portfolio_metrics_def metrics_body_def)
  next
    case (Inr d)
    then show ?thesis
      by (auto simp: calculate_portfolio_metrics_def metrics_body_def)
  qed
qed

text \<open>
  A portfolio with a negative weight and weights that sum to \<open>3/2\<close>.
\<close>

theorem weights_are_not_validated_witness:
  "calculate_portfolio_metrics (4/100) [(''A'', - 1/2), (''B'', 2)] (Inr flat_history)
     = Inr (Dict (metrics_of (4/100) [3/200, 3/200]))
   \<and> sum_list (map snd [(''A'', - 1/2), (''B'', 2::real)]) = 3/2"
proof -
  have "[(''A'', - 1/2), (''B'', 2::real)] \<noteq> [] \<and> Inr flat_history = (Inr flat_history :: exn + price_data)
        \<and> \<not> data_empty flat_history
        \<and> length [(''A'', - 1/2), (''B'', 2::real)] = columns flat_history"
    by (simp add: flat_history_def)
  with weights_are_not_validated
    [of "4/100" "Inr flat_history" "[(''A'', - 1/2), (''B'', 2)]" flat_history]
  have "calculate_portfolio_metrics (4/100) [(''A'', - 1/2), (''B'', 2)] (Inr flat_history)
     = Inr (Dict (metrics_of (4/100)
         (portfolio_returns (returns flat_history) (map snd [(''A'', - 1/2), (''B'', 2::real)]))))"
    by blast
  moreover have "portfolio_returns (returns flat_history) (map snd [(''A'', - 1/2), (''B'', 2::real)])
      = [3/200, 3/200]"
    by (simp add: flat_history_def portfolio_returns_def)
  ultimately show ?thesis by simp
qed

section \<open>Reproducibility\<close>





end
